theory Spec2Isabelle
  imports Complex_Main "HOL-Library.Word"
begin

section \<open>Data model\<close>

type_synonym byte = "8 word"
type_synonym uint64 = "64 word"
type_synonym address = "160 word"
type_synonym hash = "256 word"

text \<open>Go run-time panics that the modelled functions can raise.\<close>

datatype error = NilPointer | IndexOutOfRange | SliceBounds

text \<open>\<^verbatim>\<open>CKeys\<close>, \<^verbatim>\<open>KeyVal\<close>, \<^verbatim>\<open>CData\<close>, \<^verbatim>\<open>Commitment\<close> and \<^verbatim>\<open>CLock\<close> of
  \<^verbatim>\<open>core/types/transaction.go\<close>. Field names carry a prefix because several structs
  share the names \<^verbatim>\<open>Addr\<close> and \<^verbatim>\<open>Keys\<close>.\<close>

record CKeys =
  ck_Addr :: address
  ck_Keys :: "hash list"
  ck_WKeys :: "hash list"

record KeyVal =
  kv_Addr :: address
  kv_Balance :: uint64
  kv_Nonce :: uint64
  kv_Data :: "hash list"

record CData =
  cd_Addr :: address
  cd_Balance :: uint64
  cd_Nonce :: uint64
  cd_Data :: "hash \<rightharpoonup> hash"

record Commitment =
  cm_Shard :: uint64
  cm_BlockNum :: uint64
  cm_RefNum :: uint64
  cm_StateRoot :: hash

record CLock =
  cl_Addr :: address
  cl_Keys :: "hash \<rightharpoonup> int"

definition NewCLock :: "address \<Rightarrow> CLock" where
  "NewCLock addr = \<lparr>cl_Addr = addr, cl_Keys = Map.empty\<rparr>"

text \<open>\<^verbatim>\<open>DataCache\<close>: the foreign data of one reference block. A Go map from a key to a
  pointer is a partial map; a missing key and a nil pointer are both \<open>None\<close>, except in
  \<open>dc_Commits\<close>, where \<^verbatim>\<open>InitKeys\<close> can store the nil pointer it gets from \<^verbatim>\<open>GetCommit\<close>.\<close>

record DataCache =
  dc_RefNum :: uint64
  dc_Status :: bool
  dc_Required :: int
  dc_Received :: int
  dc_Keyval :: "address \<rightharpoonup> CKeys"
  dc_AddrToShard :: "address \<rightharpoonup> uint64"
  dc_ShardStatus :: "uint64 \<rightharpoonup> bool"
  dc_Commits :: "uint64 \<rightharpoonup> Commitment option"
  dc_Values :: "address \<rightharpoonup> CData"

definition NewDataCache :: "uint64 \<Rightarrow> bool \<Rightarrow> DataCache" where
  "NewDataCache bnum status =
     \<lparr>dc_RefNum = bnum, dc_Status = status, dc_Required = 0, dc_Received = 0,
      dc_Keyval = Map.empty, dc_AddrToShard = Map.empty, dc_ShardStatus = Map.empty,
      dc_Commits = Map.empty, dc_Values = Map.empty\<rparr>"

section \<open>Value transfer against the foreign-data cache\<close>

text \<open>\<^verbatim>\<open>vm.StateDB\<close> is an interface declared outside the files at hand. An interface is
  a table of methods over some state \<open>'db\<close>; the four methods that \<^verbatim>\<open>CanTransfer\<close> and
  \<^verbatim>\<open>Transfer\<close> call are its fields. Balances and amounts are \<^verbatim>\<open>*big.Int\<close>, hence \<open>int\<close>.\<close>

record 'db StateDB =
  GetBalance :: "'db \<Rightarrow> address \<Rightarrow> int"
  GetNonce :: "'db \<Rightarrow> address \<Rightarrow> uint64"
  SubBalance :: "'db \<Rightarrow> address \<Rightarrow> int \<Rightarrow> 'db"
  AddBalance :: "'db \<Rightarrow> address \<Rightarrow> int \<Rightarrow> 'db"

text \<open>\<^verbatim>\<open>(*big.Int).Uint64\<close>: the low 64 bits of the absolute value.\<close>

definition Uint64 :: "int \<Rightarrow> uint64" where
  "Uint64 x = word_of_nat (nat \<bar>x\<bar>)"

text \<open>\<^verbatim>\<open>new(big.Int).SetUint64\<close>.\<close>

definition SetUint64 :: "uint64 \<Rightarrow> int" where
  "SetUint64 w = uint w"

text \<open>\<^verbatim>\<open>CanTransfer\<close> (the EVM context file). \<^verbatim>\<open>dc.Values[addr].Balance\<close> reads a field
  through the pointer found in the map: with no entry the pointer is nil and the read
  panics.\<close>

definition CanTransfer ::
  "DataCache option \<Rightarrow> uint64 \<Rightarrow> 'db StateDB \<Rightarrow> 'db \<Rightarrow> address \<Rightarrow> int \<Rightarrow> error + bool" where
  "CanTransfer dc bshard I db addr amount =
     (case dc of
        None \<Rightarrow> Inr (GetBalance I db addr \<ge> amount)
      | Some c \<Rightarrow>
          (case dc_AddrToShard c addr of
             None \<Rightarrow> Inr False
           | Some shard \<Rightarrow>
               if shard \<noteq> bshard then
                 (case dc_Values c addr of
                    None \<Rightarrow> Inl NilPointer
                  | Some vals \<Rightarrow> Inr (SetUint64 (cd_Balance vals) \<ge> amount))
               else Inr (GetBalance I db addr \<ge> amount)))"

text \<open>The lookup \<^verbatim>\<open>dc.AddrToShard[a]\<close> without the presence flag: zero when absent.\<close>

definition shardOf :: "DataCache \<Rightarrow> address \<Rightarrow> uint64" where
  "shardOf c a = (case dc_AddrToShard c a of None \<Rightarrow> 0 | Some s \<Rightarrow> s)"

text \<open>The entry that \<^verbatim>\<open>Transfer\<close> creates from cached values, and the one it creates
  from the local state when the cache has none.\<close>

definition fromValues :: "address \<Rightarrow> CData \<Rightarrow> CData" where
  "fromValues a vals =
     \<lparr>cd_Addr = a, cd_Balance = cd_Balance vals, cd_Nonce = cd_Nonce vals, cd_Data = Map.empty\<rparr>"

definition fromState :: "'db StateDB \<Rightarrow> 'db \<Rightarrow> address \<Rightarrow> CData" where
  "fromState I db a =
     \<lparr>cd_Addr = a, cd_Balance = Uint64 (GetBalance I db a), cd_Nonce = GetNonce I db a,
      cd_Data = Map.empty\<rparr>"

text \<open>The sender half of \<^verbatim>\<open>Transfer\<close> when a cache is given. In the branch for a sender
  without cached values the source fills \<^verbatim>\<open>dcChanges[recipient]\<close>; the debit that follows
  dereferences \<^verbatim>\<open>dcChanges[sender]\<close>.\<close>

definition Transfer_sender ::
  "uint64 \<Rightarrow> DataCache \<Rightarrow> (address \<rightharpoonup> CData) \<Rightarrow> 'db StateDB \<Rightarrow> 'db \<Rightarrow> address \<Rightarrow> address \<Rightarrow> int
     \<Rightarrow> error + (address \<rightharpoonup> CData) \<times> 'db" where
  "Transfer_sender bshard c dcChanges I db sender recipient amount =
     (if shardOf c sender \<noteq> bshard then
        (let ch = (case dcChanges sender of
                     Some _ \<Rightarrow> dcChanges
                   | None \<Rightarrow>
                       (case dc_Values c sender of
                          Some vals \<Rightarrow> dcChanges(sender \<mapsto> fromValues sender vals)
                        | None \<Rightarrow> dcChanges(recipient \<mapsto> fromState I db recipient)))
         in case ch sender of
              None \<Rightarrow> Inl NilPointer
            | Some e \<Rightarrow> Inr (ch(sender \<mapsto> e\<lparr>cd_Balance := cd_Balance e - Uint64 amount\<rparr>), db))
      else Inr (dcChanges, SubBalance I db sender amount))"

text \<open>The recipient half.\<close>

definition Transfer_recipient ::
  "uint64 \<Rightarrow> DataCache \<Rightarrow> (address \<rightharpoonup> CData) \<Rightarrow> 'db StateDB \<Rightarrow> 'db \<Rightarrow> address \<Rightarrow> int
     \<Rightarrow> error + (address \<rightharpoonup> CData) \<times> 'db" where
  "Transfer_recipient bshard c dcChanges I db recipient amount =
     (if shardOf c recipient \<noteq> bshard then
        (let ch = (case dcChanges recipient of
                     Some _ \<Rightarrow> dcChanges
                   | None \<Rightarrow>
                       (case dc_Values c recipient of
                          Some vals \<Rightarrow> dcChanges(recipient \<mapsto> fromValues recipient vals)
                        | None \<Rightarrow> dcChanges(recipient \<mapsto> fromState I db recipient)))
         in case ch recipient of
              None \<Rightarrow> Inl NilPointer
            | Some e \<Rightarrow> Inr (ch(recipient \<mapsto> e\<lparr>cd_Balance := cd_Balance e + Uint64 amount\<rparr>), db))
      else Inr (dcChanges, AddBalance I db recipient amount))"

text \<open>\<^verbatim>\<open>Transfer\<close>: the state \<^verbatim>\<open>dcChanges\<close> and \<^verbatim>\<open>db\<close> are mutated in place by the source
  and returned here.\<close>

definition Transfer ::
  "uint64 \<Rightarrow> DataCache option \<Rightarrow> (address \<rightharpoonup> CData) \<Rightarrow> 'db StateDB \<Rightarrow> 'db \<Rightarrow> address \<Rightarrow> address
     \<Rightarrow> int \<Rightarrow> error + (address \<rightharpoonup> CData) \<times> 'db" where
  "Transfer bshard dc dcChanges I db sender recipient amount =
     (case dc of
        None \<Rightarrow> Inr (dcChanges, AddBalance I (SubBalance I db sender amount) recipient amount)
      | Some c \<Rightarrow>
          (case Transfer_sender bshard c dcChanges I db sender recipient amount of
             Inl e \<Rightarrow> Inl e
           | Inr (ch, db') \<Rightarrow> Transfer_recipient bshard c ch I db' recipient amount))"

text \<open>A concrete state database for evaluating the functions: a table of balances and a
  table of nonces.\<close>

definition tableDB :: "((address \<Rightarrow> int) \<times> (address \<Rightarrow> uint64)) StateDB" where
  "tableDB =
     \<lparr>GetBalance = (\<lambda>(b, n) a. b a),
      GetNonce = (\<lambda>(b, n) a. n a),
      SubBalance = (\<lambda>(b, n) a x. (b(a := b a - x), n)),
      AddBalance = (\<lambda>(b, n) a x. (b(a := b a + x), n))\<rparr>"

text \<open>A cache that maps address 1 to shard 1 and address 2 to shard 2 and has received
  no values.\<close>

definition remoteCache :: DataCache where
  "remoteCache = (NewDataCache 6 False)\<lparr>dc_AddrToShard := [1 \<mapsto> 1, 2 \<mapsto> 2]\<rparr>"


section \<open>The foreign-data cache\<close>

text \<open>A transaction as far as the modelled functions read it: its kind (\<^verbatim>\<open>TxType()\<close>),
  its hash (\<^verbatim>\<open>Hash()\<close>) and its payload (\<^verbatim>\<open>Data()\<close>).\<close>

record Transaction =
  tx_TxType :: uint64
  tx_Hash :: hash
  tx_Data :: "byte list"

definition StateCommit :: uint64 where "StateCommit = 0"
definition IntraShard :: uint64 where "IntraShard = 1"
definition CrossShard :: uint64 where "CrossShard = 2"
definition ContractInit :: uint64 where "ContractInit = 3"
definition CrossShardLocal :: uint64 where "CrossShardLocal = 4"

text \<open>\<^verbatim>\<open>CrossTx\<close> and \<^verbatim>\<open>CrossShardTxs\<close>. A Go map that the code ranges over is an
  association list: its order is the order in which the run visits the entries.\<close>

record CrossTx =
  ctx_Shards :: "uint64 list"
  ctx_BlockNum :: int
  ctx_Tx :: Transaction
  ctx_AllContracts :: "(uint64 \<times> CKeys list) list"

type_synonym CrossShardTxs = "(uint64 \<times> CrossTx) list"

text \<open>\<^verbatim>\<open>Commitments\<close>: a shard's commitment, if any; \<^verbatim>\<open>GetCommit\<close> is the lookup.\<close>

type_synonym Commitments = "uint64 \<rightharpoonup> Commitment"

text \<open>A loop over a list whose body can panic.\<close>

fun foldE :: "('a \<Rightarrow> 's \<Rightarrow> error + 's) \<Rightarrow> 'a list \<Rightarrow> 's \<Rightarrow> error + 's" where
  "foldE f [] s = Inr s"
| "foldE f (x # xs) s = (case f x s of Inl e \<Rightarrow> Inl e | Inr s' \<Rightarrow> foldE f xs s')"

text \<open>The inner loop of \<^verbatim>\<open>AddData\<close>: \<^verbatim>\<open>cdata.Data[keys[i]] = data[i]\<close> for every index of
  \<^verbatim>\<open>data\<close>; \<^verbatim>\<open>keys[i]\<close> panics past the end of \<^verbatim>\<open>keys\<close>.\<close>

fun fillData :: "hash list \<Rightarrow> hash list \<Rightarrow> (hash \<rightharpoonup> hash) \<Rightarrow> error + (hash \<rightharpoonup> hash)" where
  "fillData keys [] m = Inr m"
| "fillData [] (d # ds) m = Inl IndexOutOfRange"
| "fillData (k # ks) (d # ds) m = fillData ks ds (m(k \<mapsto> d))"

text \<open>The body of the loop over \<^verbatim>\<open>vals\<close>: \<^verbatim>\<open>dc.Keyval[caddr].Keys\<close> panics when the
  contract was never registered.\<close>

definition addValues :: "KeyVal \<Rightarrow> DataCache \<Rightarrow> error + DataCache" where
  "addValues values dc =
     (case dc_Keyval dc (kv_Addr values) of
        None \<Rightarrow> Inl NilPointer
      | Some ck \<Rightarrow>
          (case fillData (ck_Keys ck) (kv_Data values) Map.empty of
             Inl e \<Rightarrow> Inl e
           | Inr m \<Rightarrow>
               Inr (dc\<lparr>dc_Values := (dc_Values dc)(kv_Addr values \<mapsto>
                      \<lparr>cd_Addr = kv_Addr values, cd_Balance = kv_Balance values,
                       cd_Nonce = kv_Nonce values, cd_Data = m\<rparr>)\<rparr>)))"

text \<open>\<^verbatim>\<open>(*DataCache).AddData\<close>. \<^verbatim>\<open>dc.ShardStatus[shard]\<close> is false for a shard that the
  map does not hold.\<close>

definition AddData :: "uint64 \<Rightarrow> KeyVal list \<Rightarrow> DataCache \<Rightarrow> error + DataCache" where
  "AddData shard vals dc =
     (if dc_ShardStatus dc shard \<noteq> Some True \<and> length vals > 0 then
        (case foldE addValues vals dc of
           Inl e \<Rightarrow> Inl e
         | Inr dc1 \<Rightarrow>
             (let dc2 = dc1\<lparr>dc_ShardStatus := (dc_ShardStatus dc1)(shard \<mapsto> True),
                            dc_Received := dc_Received dc1 + 1\<rparr>
              in Inr (if dc_Received dc2 = dc_Required dc2 then dc2\<lparr>dc_Status := True\<rparr>
                      else dc2)))
      else Inr dc)"

text \<open>\<^verbatim>\<open>dc.Keyval[caddr].AddKey(key)\<close>.\<close>

definition addKey :: "address \<Rightarrow> hash \<Rightarrow> DataCache \<Rightarrow> error + DataCache" where
  "addKey caddr key dc =
     (case dc_Keyval dc caddr of
        None \<Rightarrow> Inl NilPointer
      | Some ck \<Rightarrow> Inr (dc\<lparr>dc_Keyval := (dc_Keyval dc)(caddr \<mapsto> ck\<lparr>ck_Keys := ck_Keys ck @ [key]\<rparr>)\<rparr>))"

text \<open>The body of the loop over the contracts of one shard in \<^verbatim>\<open>InitKeys\<close>.\<close>

definition initContract :: "uint64 \<Rightarrow> CKeys \<Rightarrow> DataCache \<Rightarrow> error + DataCache" where
  "initContract shard contract dc =
     (let caddr = ck_Addr contract;
          dc1 = (if dc_AddrToShard dc caddr = None then
                   dc\<lparr>dc_AddrToShard := (dc_AddrToShard dc)(caddr \<mapsto> shard),
                      dc_Keyval := (dc_Keyval dc)(caddr \<mapsto>
                        \<lparr>ck_Addr = caddr, ck_Keys = [], ck_WKeys = []\<rparr>)\<rparr>
                 else dc)
      in foldE (addKey caddr) (ck_Keys contract) dc1)"

text \<open>The body of the loop over \<^verbatim>\<open>ctx.AllContracts\<close>.\<close>

definition initShard :: "uint64 \<Rightarrow> Commitments \<Rightarrow> uint64 \<times> CKeys list \<Rightarrow> DataCache \<Rightarrow> error + DataCache" where
  "initShard myshard commits entry dc =
     (let shard = fst entry; allKeys = snd entry;
          dc1 = (if dc_ShardStatus dc shard = None then
                   (if shard = myshard then
                      dc\<lparr>dc_ShardStatus := (dc_ShardStatus dc)(shard \<mapsto> True)\<rparr>
                    else
                      dc\<lparr>dc_Required := dc_Required dc + 1,
                         dc_ShardStatus := (dc_ShardStatus dc)(shard \<mapsto> False),
                         dc_Commits := (dc_Commits dc)(shard \<mapsto> commits shard)\<rparr>)
                 else dc)
      in foldE (initContract shard) allKeys dc1)"

text \<open>The body of the loop over \<^verbatim>\<open>ctxs.Txs\<close>.\<close>

definition initCtx :: "uint64 \<Rightarrow> Commitments \<Rightarrow> uint64 \<times> CrossTx \<Rightarrow> DataCache \<Rightarrow> error + DataCache" where
  "initCtx myshard commits entry dc =
     (if myshard \<in> set (ctx_Shards (snd entry)) then
        foldE (initShard myshard commits) (ctx_AllContracts (snd entry)) dc
      else Inr dc)"

text \<open>\<^verbatim>\<open>(*DataCache).InitKeys\<close>: the returned flag and the cache after the call.\<close>

definition InitKeys :: "uint64 \<Rightarrow> CrossShardTxs \<Rightarrow> Commitments \<Rightarrow> DataCache \<Rightarrow> error + bool \<times> DataCache" where
  "InitKeys myshard ctxs commits dc =
     (case foldE (initCtx myshard commits) ctxs (dc\<lparr>dc_Received := 0, dc_Required := 0\<rparr>) of
        Inl e \<Rightarrow> Inl e
      | Inr dc1 \<Rightarrow>
          if dc_Received dc1 = dc_Required dc1 then Inr (True, dc1\<lparr>dc_Status := True\<rparr>)
          else Inr (False, dc1))"

text \<open>A sequence of calls on one cache entry; a panic ends the run.\<close>

datatype cacheOp = OpInitKeys uint64 CrossShardTxs Commitments | OpAddData uint64 "KeyVal list"

fun isInitKeys :: "cacheOp \<Rightarrow> bool" where
  "isInitKeys (OpInitKeys m c k) = True"
| "isInitKeys (OpAddData s v) = False"

fun applyOp :: "cacheOp \<Rightarrow> DataCache \<Rightarrow> error + DataCache" where
  "applyOp (OpInitKeys myshard ctxs commits) dc =
     (case InitKeys myshard ctxs commits dc of Inl e \<Rightarrow> Inl e | Inr (b, dc') \<Rightarrow> Inr dc')"
| "applyOp (OpAddData shard vals) dc = AddData shard vals dc"

definition runOps :: "cacheOp list \<Rightarrow> DataCache \<Rightarrow> error + DataCache" where
  "runOps ops dc = foldE applyOp ops dc"

text \<open>The three fields that the readiness of an entry is about.\<close>

definition readiness :: "error + DataCache \<Rightarrow> (bool \<times> int \<times> int) option" where
  "readiness r =
     (case r of Inl e \<Rightarrow> None | Inr dc \<Rightarrow> Some (dc_Status dc, dc_Received dc, dc_Required dc))"

text \<open>Projections used to state what the iterations over the cache leave unchanged.\<close>

definition counters :: "DataCache \<Rightarrow> bool \<times> int \<times> int" where
  "counters dc = (dc_Status dc, dc_Received dc, dc_Required dc)"

definition statusReceived :: "DataCache \<Rightarrow> bool \<times> int" where
  "statusReceived dc = (dc_Status dc, dc_Received dc)"

text \<open>A cross-shard transaction of shard 1 that touches contract 9 of shard 1 only, and
  one that touches contract 8 of shard 2.\<close>

definition localCtx :: CrossTx where
  "localCtx = \<lparr>ctx_Shards = [1], ctx_BlockNum = 6,
     ctx_Tx = \<lparr>tx_TxType = 4, tx_Hash = 77, tx_Data = []\<rparr>,
     ctx_AllContracts = [(1, [\<lparr>ck_Addr = 9, ck_Keys = [], ck_WKeys = []\<rparr>])]\<rparr>"

definition remoteCtx :: CrossTx where
  "remoteCtx = \<lparr>ctx_Shards = [1, 2], ctx_BlockNum = 6,
     ctx_Tx = \<lparr>tx_TxType = 4, tx_Hash = 78, tx_Data = []\<rparr>,
     ctx_AllContracts = [(2, [\<lparr>ck_Addr = 8, ck_Keys = [5], ck_WKeys = []\<rparr>])]\<rparr>"

definition remoteCtx3 :: CrossTx where
  "remoteCtx3 = \<lparr>ctx_Shards = [1, 3], ctx_BlockNum = 6,
     ctx_Tx = \<lparr>tx_TxType = 4, tx_Hash = 79, tx_Data = []\<rparr>,
     ctx_AllContracts = [(3, [\<lparr>ck_Addr = 7, ck_Keys = [5], ck_WKeys = []\<rparr>])]\<rparr>"

text \<open>The values of contract 8 as a peer sends them.\<close>

definition values8 :: KeyVal where
  "values8 = \<lparr>kv_Addr = 8, kv_Balance = 0, kv_Nonce = 0, kv_Data = [3]\<rparr>"

section \<open>The lock manager\<close>

text \<open>The state that the lock functions of the worker and of the chain share on the
  reference shard: \<^verbatim>\<open>gLocked.Locks\<close> and \<^verbatim>\<open>lockedAddrMap\<close> (held by both; the
  contracts of a shard are ranged over and are an association list), the
  tentative tables \<^verbatim>\<open>cLocked\<close> and \<^verbatim>\<open>cUnlocked\<close> of the worker, its \<^verbatim>\<open>addrShardMap\<close>,
  \<^verbatim>\<open>lastCommit\<close> and \<^verbatim>\<open>lastCtx\<close>, and the chain's \<^verbatim>\<open>procCtxs\<close>.\<close>

record Worker =
  w_gLocked :: "address \<rightharpoonup> CLock"
  w_lockedAddrMap :: "uint64 \<rightharpoonup> (address \<times> bool) list"
  w_cUnlocked :: "address \<rightharpoonup> CLock"
  w_cLocked :: "address \<rightharpoonup> CLock"
  w_addrShardMap :: "address \<rightharpoonup> uint64"
  w_lastCommit :: "uint64 \<rightharpoonup> Commitment"
  w_lastCtx :: "uint64 \<rightharpoonup> uint64"
  w_procCtxs :: "hash \<rightharpoonup> bool"

text \<open>Assignment to a Go map that is later ranged over: the entry is replaced in place
  or appended.\<close>

fun upsert :: "'k \<Rightarrow> 'v \<Rightarrow> ('k \<times> 'v) list \<Rightarrow> ('k \<times> 'v) list" where
  "upsert k v [] = [(k, v)]"
| "upsert k v ((k', v') # xs) = (if k = k' then (k, v) # xs else (k', v') # upsert k v xs)"





















text \<open>A worker with empty tables; the transactions \<open>T1\<close>, which writes key 1 of
  contract 10, and \<open>T2\<close>, which reads it, with their read-write sets as \<^verbatim>\<open>GetRWSet\<close>
  lists them (every key under \<^verbatim>\<open>Keys\<close>, a written key under \<^verbatim>\<open>WKeys\<close> as well).\<close>

definition emptyWorker :: Worker where
  "emptyWorker = \<lparr>w_gLocked = Map.empty, w_lockedAddrMap = Map.empty, w_cUnlocked = Map.empty,
     w_cLocked = Map.empty, w_addrShardMap = Map.empty, w_lastCommit = Map.empty,
     w_lastCtx = Map.empty, w_procCtxs = Map.empty\<rparr>"

definition T1 :: Transaction where
  "T1 = \<lparr>tx_TxType = CrossShard, tx_Hash = 101, tx_Data = []\<rparr>"

definition T2 :: Transaction where
  "T2 = \<lparr>tx_TxType = CrossShard, tx_Hash = 102, tx_Data = []\<rparr>"

definition scenarioKeys :: "Transaction \<Rightarrow> (uint64 \<times> CKeys list) list" where
  "scenarioKeys tx =
     (if tx_Hash tx = 101 then [(2, [\<lparr>ck_Addr = 10, ck_Keys = [1], ck_WKeys = [1]\<rparr>])]
      else [(2, [\<lparr>ck_Addr = 10, ck_Keys = [1], ck_WKeys = []\<rparr>])])"

section \<open>Decoding a state commitment\<close>

text \<open>Sequencing of steps that can panic.\<close>

definition bindE :: "error + 'a \<Rightarrow> ('a \<Rightarrow> error + 'b) \<Rightarrow> error + 'b" where
  "bindE r f = (case r of Inl e \<Rightarrow> Inl e | Inr v \<Rightarrow> f v)"

text \<open>The slice expressions \<^verbatim>\<open>b[lo:hi]\<close> and \<^verbatim>\<open>b[lo:]\<close>: out of range they panic.\<close>

definition slice :: "nat \<Rightarrow> nat \<Rightarrow> 'a list \<Rightarrow> error + 'a list" where
  "slice lo hi b = (if lo \<le> hi \<and> hi \<le> length b then Inr (take (hi - lo) (drop lo b)) else Inl SliceBounds)"

definition sliceFrom :: "nat \<Rightarrow> 'a list \<Rightarrow> error + 'a list" where
  "sliceFrom lo b = (if lo \<le> length b then Inr (drop lo b) else Inl SliceBounds)"

text \<open>\<^verbatim>\<open>binary.BigEndian.Uint64\<close>: the first eight bytes, most significant first; it
  panics on a shorter slice.\<close>

definition beUint64 :: "byte list \<Rightarrow> error + uint64" where
  "beUint64 b =
     (if length b < 8 then Inl IndexOutOfRange
      else Inr (foldl (\<lambda>acc x. acc * 256 + ucast x) 0 (take 8 b)))"

text \<open>\<^verbatim>\<open>DecodeStateCommit\<close> of \<^verbatim>\<open>core/types/transaction.go\<close>. It returns four values:
  the shard, the committed block number, the reported reference number, and one hash made
  from everything after the third word. \<^verbatim>\<open>common.BytesToHash\<close> is declared outside the
  files at hand and is the parameter \<open>BytesToHash\<close>.\<close>

definition DecodeStateCommit ::
  "(byte list \<Rightarrow> hash) \<Rightarrow> Transaction \<Rightarrow> error + uint64 \<times> uint64 \<times> uint64 \<times> hash" where
  "DecodeStateCommit BytesToHash stx =
     bindE (sliceFrom 4 (tx_Data stx)) (\<lambda>data.
     bindE (bindE (slice 24 32 data) beUint64) (\<lambda>shard.
     bindE (bindE (slice 56 64 data) beUint64) (\<lambda>commit.
     bindE (bindE (slice 88 96 data) beUint64) (\<lambda>report.
     bindE (sliceFrom 96 data) (\<lambda>rest.
     Inr (shard, commit, report, BytesToHash rest))))))"

text \<open>A 32-byte big-endian word holding a number below 256, and the payload of a state
  commitment as the specification lays it out: a four-byte selector, then the words
  \<^verbatim>\<open>shard, block_num, ref_num, state_root, block_hash\<close>.\<close>

definition word32 :: "byte \<Rightarrow> byte list" where
  "word32 x = replicate 31 0 @ [x]"

definition commitPayload :: "byte \<Rightarrow> byte \<Rightarrow> byte \<Rightarrow> byte \<Rightarrow> byte \<Rightarrow> byte list" where
  "commitPayload shard blockNum refNum stateRoot blockHash =
     [0, 0, 0, 0] @ word32 shard @ word32 blockNum @ word32 refNum @ word32 stateRoot
       @ word32 blockHash"

definition commitTx :: "hash \<Rightarrow> byte \<Rightarrow> byte \<Rightarrow> byte \<Rightarrow> byte \<Rightarrow> byte \<Rightarrow> Transaction" where
  "commitTx h shard blockNum refNum stateRoot blockHash =
     \<lparr>tx_TxType = StateCommit, tx_Hash = h,
      tx_Data = commitPayload shard blockNum refNum stateRoot blockHash\<rparr>"

section \<open>Decoding a read-write set\<close>

text \<open>The value of a byte string read most significant byte first. On a slice of exactly
  2, 20 or 32 bytes this is what \<^verbatim>\<open>binary.BigEndian.Uint16\<close>, \<^verbatim>\<open>common.BytesToAddress\<close>
  and \<^verbatim>\<open>common.BytesToHash\<close> return.\<close>

definition beWord :: "byte list \<Rightarrow> 'a::len word" where
  "beWord b = foldl (\<lambda>acc x. acc * 256 + ucast x) 0 b"

text \<open>\<^verbatim>\<open>data[index : index+n]\<close> with an index of type \<^verbatim>\<open>uint16\<close>: the upper end wraps.\<close>

definition slice16 :: "16 word \<Rightarrow> 16 word \<Rightarrow> byte list \<Rightarrow> error + byte list" where
  "slice16 index n data = slice (unat index) (unat (index + n)) data"

text \<open>The inner loop of \<^verbatim>\<open>GetRWSet\<close> over the keys of one contract: every key is added
  to \<^verbatim>\<open>Keys\<close>, and to \<^verbatim>\<open>WKeys\<close> as well when the byte after it is 1. The first argument
  counts the keys still to read.\<close>

fun getKeys :: "nat \<Rightarrow> 16 word \<Rightarrow> byte list \<Rightarrow> CKeys \<Rightarrow> error + CKeys \<times> 16 word" where
  "getKeys 0 index data cKeys = Inr (cKeys, index)"
| "getKeys (Suc k) index data cKeys =
     bindE (slice16 index 32 data) (\<lambda>keyBytes.
       (let key = beWord keyBytes; index1 = index + 32;
            cKeys1 = cKeys\<lparr>ck_Keys := ck_Keys cKeys @ [key]\<rparr>
        in if unat index1 < length data then
             getKeys k (index1 + 1) data
               (if data ! unat index1 = 1 then cKeys1\<lparr>ck_WKeys := ck_WKeys cKeys1 @ [key]\<rparr>
                else cKeys1)
           else Inl IndexOutOfRange))"

text \<open>The outer loop of \<^verbatim>\<open>GetRWSet\<close> over the contracts of one shard.\<close>

fun getContracts :: "nat \<Rightarrow> 16 word \<Rightarrow> byte list \<Rightarrow> CKeys list \<Rightarrow> error + CKeys list \<times> 16 word" where
  "getContracts 0 index data allKeys = Inr (allKeys, index)"
| "getContracts (Suc i) index data allKeys =
     bindE (slice16 index 20 data) (\<lambda>addrBytes.
     bindE (slice16 (index + 20) 2 data) (\<lambda>numBytes.
     bindE (getKeys (unat (beWord numBytes :: 16 word)) (index + 20 + 2) data
              \<lparr>ck_Addr = beWord addrBytes, ck_Keys = [], ck_WKeys = []\<rparr>) (\<lambda>(cKeys, index1).
     getContracts i index1 data (allKeys @ [cKeys]))))"

definition GetRWSet :: "16 word \<Rightarrow> 16 word \<Rightarrow> byte list \<Rightarrow> error + CKeys list \<times> 16 word" where
  "GetRWSet numContracts index data = getContracts (unat numContracts) index data []"

text \<open>The loop of \<^verbatim>\<open>GetAllRWSet\<close> over the shards. The variable \<^verbatim>\<open>allKeys\<close> lives across
  the iterations: a shard without contracts is entered with the list of the shard before
  it.\<close>

fun getShards ::
  "nat \<Rightarrow> 16 word \<Rightarrow> byte list \<Rightarrow> CKeys list \<Rightarrow> uint64 list \<Rightarrow> (uint64 \<times> CKeys list) list
     \<Rightarrow> error + (uint64 \<times> CKeys list) list \<times> uint64 list \<times> 16 word" where
  "getShards 0 index data allKeys shards allContracts = Inr (allContracts, shards, index)"
| "getShards (Suc i) index data allKeys shards allContracts =
     bindE (slice16 index 2 data) (\<lambda>shardBytes.
     bindE (slice16 (index + 2) 2 data) (\<lambda>numBytes.
       (let shard = ucast (beWord shardBytes :: 16 word);
            numContracts = (beWord numBytes :: 16 word)
        in bindE (if numContracts > 0 then GetRWSet numContracts (index + 2 + 2) data
                  else Inr (allKeys, index + 2 + 2)) (\<lambda>(allKeys1, index1).
             getShards i index1 data allKeys1 (shards @ [shard])
               (upsert shard allKeys1 allContracts)))))"

definition GetAllRWSet ::
  "16 word \<Rightarrow> byte list \<Rightarrow> error + (uint64 \<times> CKeys list) list \<times> uint64 list \<times> 16 word" where
  "GetAllRWSet numShard data = getShards (unat numShard) 0 data [] [] []"

text \<open>The read-write set of one shard with one contract and one key, as bytes: shard 2,
  one contract, address 10, one key, key 1, and the write flag.\<close>

definition rwBytes :: "byte \<Rightarrow> byte list" where
  "rwBytes flag = [0, 2] @ [0, 1] @ (replicate 19 0 @ [10]) @ [0, 1] @ word32 1 @ [flag]"

section \<open>Filtering the state commitments\<close>

text \<open>The loop of \<^verbatim>\<open>newWorker\<close> that fills \<^verbatim>\<open>addrShardMap\<close> on the reference shard from the
  map of shards to commit addresses. \<^verbatim>\<open>common.BigToAddress\<close> is declared outside the
  files at hand and is the parameter \<open>BigToAddress\<close>.\<close>

definition newAddrShardMap :: "(int \<Rightarrow> address) \<Rightarrow> (uint64 \<times> int) list \<Rightarrow> (address \<rightharpoonup> uint64)" where
  "newAddrShardMap BigToAddress shardAddMap =
     fold (\<lambda>(shard, addr) m. if shard = 0 then m else m(BigToAddress addr \<mapsto> shard))
       shardAddMap Map.empty"

text \<open>\<^verbatim>\<open>w.addrShardMap[addr]\<close> and \<^verbatim>\<open>w.lastCtx[shard]\<close>: zero when absent.\<close>

definition shardOfAddr :: "Worker \<Rightarrow> address \<Rightarrow> uint64" where
  "shardOfAddr w addr = (case w_addrShardMap w addr of None \<Rightarrow> 0 | Some s \<Rightarrow> s)"

definition lastCtxOf :: "Worker \<Rightarrow> uint64 \<Rightarrow> uint64" where
  "lastCtxOf w shard = (case w_lastCtx w shard of None \<Rightarrow> 0 | Some n \<Rightarrow> n)"

text \<open>\<^verbatim>\<open>(*worker).unlockKeys\<close>: every locked contract of the shard gets an entry in
  \<^verbatim>\<open>cUnlocked\<close> unless it has one.\<close>

definition unlockKeys :: "uint64 \<Rightarrow> Worker \<Rightarrow> Worker" where
  "unlockKeys shard w =
     (case w_lockedAddrMap w shard of
        None \<Rightarrow> w
      | Some lockedAddrs \<Rightarrow>
          if length lockedAddrs > 0 then
            w\<lparr>w_cUnlocked :=
                 fold (\<lambda>(addr, b) u. if u addr = None then u(addr \<mapsto> NewCLock addr) else u)
                   lockedAddrs (w_cUnlocked w)\<rparr>
          else w)"

text \<open>The body of the loop over the commits of one address in
  \<^verbatim>\<open>NewValidStateCommitments\<close>; the state is \<^verbatim>\<open>(maxTx, maxCom, maxRef)\<close>.\<close>

type_synonym best = "Transaction option \<times> uint64 \<times> uint64"

definition pickCommit :: "(byte list \<Rightarrow> hash) \<Rightarrow> uint64 \<Rightarrow> Transaction \<Rightarrow> best \<Rightarrow> error + best" where
  "pickCommit BytesToHash lastCtx tx st =
     (case st of (maxTx, maxCom, maxRef) \<Rightarrow>
        bindE (DecodeStateCommit BytesToHash tx) (\<lambda>(sh, commit, report, stateRoot).
          Inr (if report \<ge> lastCtx then
                 (if report > maxRef then (Some tx, commit, report)
                  else if report = maxRef then
                    (if commit > maxCom then (Some tx, commit, maxRef) else (maxTx, maxCom, maxRef))
                  else (maxTx, maxCom, maxRef))
               else (maxTx, maxCom, maxRef))))"

text \<open>The body of the loop over the addresses. \<^verbatim>\<open>lastCommit.RefNum\<close> panics when the
  shard has no last commit.\<close>

definition commitsOfAddr ::
  "(byte list \<Rightarrow> hash) \<Rightarrow> address \<times> Transaction list
     \<Rightarrow> (address \<rightharpoonup> Transaction list) \<times> Worker \<Rightarrow> error + (address \<rightharpoonup> Transaction list) \<times> Worker" where
  "commitsOfAddr BytesToHash entry st =
     (case st of (newCommits, w) \<Rightarrow>
        (let addr = fst entry; shard = shardOfAddr w addr in
         case w_lastCommit w shard of
           None \<Rightarrow> Inl NilPointer
         | Some lastCommit \<Rightarrow>
             bindE (foldE (pickCommit BytesToHash (lastCtxOf w shard)) (snd entry)
                      (None, cm_BlockNum lastCommit, cm_RefNum lastCommit))
               (\<lambda>(maxTx, maxCom, maxRef).
                  case maxTx of
                    None \<Rightarrow> Inr (newCommits, w)
                  | Some tx \<Rightarrow>
                      bindE (DecodeStateCommit BytesToHash tx) (\<lambda>d.
                        Inr (newCommits(addr \<mapsto> [tx]), unlockKeys shard w)))))"

text \<open>\<^verbatim>\<open>(*worker).NewValidStateCommitments\<close>: the map \<^verbatim>\<open>newCommits\<close> and the worker after
  the calls of \<^verbatim>\<open>unlockKeys\<close>.\<close>

definition NewValidStateCommitments ::
  "(byte list \<Rightarrow> hash) \<Rightarrow> (address \<times> Transaction list) list \<Rightarrow> Worker
     \<Rightarrow> error + (address \<rightharpoonup> Transaction list) \<times> Worker" where
  "NewValidStateCommitments BytesToHash stateTxs w =
     foldE (commitsOfAddr BytesToHash) stateTxs (Map.empty, w)"

text \<open>The commits that a run accepted for one shard: those of the addresses that
  \<^verbatim>\<open>addrShardMap\<close> sends to it.\<close>

definition acceptedFor ::
  "Worker \<Rightarrow> (address \<times> Transaction list) list \<Rightarrow> (address \<rightharpoonup> Transaction list) \<Rightarrow> uint64
     \<Rightarrow> Transaction list" where
  "acceptedFor w stateTxs newCommits shard =
     concat (map (\<lambda>entry.
       if shardOfAddr w (fst entry) = shard then
         (case newCommits (fst entry) of None \<Rightarrow> [] | Some l \<Rightarrow> l)
       else []) stateTxs)"

text \<open>What makes a commit acceptable for a shard: it decodes, its reported reference
  number is not below the height of the shard's latest cross-shard transaction, and it
  is above the shard's last commit in the order on (reference number, block number).\<close>

definition acceptable :: "(byte list \<Rightarrow> hash) \<Rightarrow> Worker \<Rightarrow> uint64 \<Rightarrow> Transaction \<Rightarrow> bool" where
  "acceptable BytesToHash w shard tx =
     (case DecodeStateCommit BytesToHash tx of
        Inl e \<Rightarrow> False
      | Inr (sh, commit, report, stateRoot) \<Rightarrow>
          (case w_lastCommit w shard of
             None \<Rightarrow> False
           | Some lastCommit \<Rightarrow>
               \<not> report < lastCtxOf w shard \<and>
               (report > cm_RefNum lastCommit \<or>
                report = cm_RefNum lastCommit \<and> commit > cm_BlockNum lastCommit)))"

text \<open>The reference shard of the fifth scenario: shard 2 commits from address 20, its
  last commit is block 5 at reference 3, and its latest cross-shard transaction is at
  reference 4.\<close>

definition refWorker :: Worker where
  "refWorker = emptyWorker\<lparr>
     w_addrShardMap := newAddrShardMap word_of_int [(1, 10), (2, 20)],
     w_lastCommit := [1 \<mapsto> \<lparr>cm_Shard = 1, cm_BlockNum = 0, cm_RefNum = 0, cm_StateRoot = 0\<rparr>,
                      2 \<mapsto> \<lparr>cm_Shard = 2, cm_BlockNum = 5, cm_RefNum = 3, cm_StateRoot = 0\<rparr>],
     w_lastCtx := [1 \<mapsto> 0, 2 \<mapsto> 4]\<rparr>"

text \<open>The invariants of the inner and the outer loop: what the inner loop has picked so far, starting
  from the block and reference numbers \<open>c0\<close> and \<open>r0\<close> of the last commit, and what the
  outer loop has put into \<^verbatim>\<open>newCommits\<close>.\<close>

definition picked ::
  "(byte list \<Rightarrow> hash) \<Rightarrow> uint64 \<Rightarrow> uint64 \<Rightarrow> uint64 \<Rightarrow> Transaction list \<Rightarrow> best \<Rightarrow> bool" where
  "picked BytesToHash lastCtx c0 r0 txs st =
     (case st of (maxTx, maxCom, maxRef) \<Rightarrow>
        (case maxTx of
           None \<Rightarrow> maxCom = c0 \<and> maxRef = r0
         | Some tx \<Rightarrow>
             tx \<in> set txs \<and>
             (\<exists>sh y. DecodeStateCommit BytesToHash tx = Inr (sh, maxCom, maxRef, y)) \<and>
             \<not> maxRef < lastCtx \<and> (maxRef > r0 \<or> maxRef = r0 \<and> maxCom > c0)))"

definition filtered ::
  "(byte list \<Rightarrow> hash) \<Rightarrow> Worker \<Rightarrow> (address \<times> Transaction list) list
     \<Rightarrow> (address \<rightharpoonup> Transaction list) \<times> Worker \<Rightarrow> bool" where
  "filtered BytesToHash w stateTxs st =
     (case st of (newCommits, w1) \<Rightarrow>
        w_addrShardMap w1 = w_addrShardMap w \<and> w_lastCommit w1 = w_lastCommit w \<and>
        w_lastCtx w1 = w_lastCtx w \<and>
        (\<forall>addr l. newCommits addr = Some l \<longrightarrow>
           (\<exists>tx txs. l = [tx] \<and> (addr, txs) \<in> set stateTxs \<and> tx \<in> set txs \<and>
              acceptable BytesToHash w (shardOfAddr w addr) tx)))"

text \<open>The two candidates of the fifth scenario: block 6 at reference 4, and block 5 at
  reference 5.\<close>

definition C1tx :: Transaction where
  "C1tx = commitTx 201 2 6 4 0 0"

definition C2tx :: Transaction where
  "C2tx = commitTx 202 2 5 5 0 0"

section \<open>Reference blocks and the global locks\<close>

















text \<open>The unlocking in the tail of \<^verbatim>\<open>(*StateProcessor).Process\<close>, which works on a table
  \<^verbatim>\<open>lockedAddr\<close> and on an index whose entries are slices of addresses: the same guard,
  the same two deletions.\<close>

record 'l ProcLocks =
  pl_lockedAddr :: "address \<rightharpoonup> 'l"
  pl_lockedAddrMap :: "uint64 \<rightharpoonup> address list"

definition Process_unlock :: "uint64 \<Rightarrow> 'l ProcLocks \<Rightarrow> 'l ProcLocks" where
  "Process_unlock shard st =
     (case pl_lockedAddrMap st shard of
        None \<Rightarrow> st
      | Some lockedAddrs \<Rightarrow>
          if length lockedAddrs = 0 then st
          else st\<lparr>pl_lockedAddr := fold (\<lambda>addr m. m(addr := None)) lockedAddrs (pl_lockedAddr st),
                  pl_lockedAddrMap := (pl_lockedAddrMap st)(shard := None)\<rparr>)"

section \<open>Executing the transactions of a block\<close>

text \<open>\<^verbatim>\<open>(*StateProcessor).Process\<close> works on two state databases, a gas pool and a gas
  counter, all mutated in place. \<^verbatim>\<open>state.StateDB\<close> is declared outside the files at
  hand; of its methods the loop calls \<^verbatim>\<open>Prepare\<close>, \<^verbatim>\<open>Snapshot\<close> (which hands out a
  revision and records it) and \<^verbatim>\<open>RevertToSnapshot\<close>. They are the fields of an
  interface over the database \<open>'db\<close> and the revision \<open>'snap\<close>.\<close>

record ('db, 'snap) StateOps =
  so_Prepare :: "hash \<Rightarrow> hash \<Rightarrow> nat \<Rightarrow> 'db \<Rightarrow> 'db"
  so_Snapshot :: "'db \<Rightarrow> 'snap \<times> 'db"
  so_RevertToSnapshot :: "'snap \<Rightarrow> 'db \<Rightarrow> 'db"

record ('db, 'g) Exec =
  x_statedb :: 'db
  x_privateState :: 'db
  x_gp :: 'g
  x_usedGas :: uint64

text \<open>What \<^verbatim>\<open>Process\<close> is given: the state operations; \<^verbatim>\<open>ApplyTransaction\<close>, which runs the
  EVM and is a parameter here (it returns an error or the public receipt and, for a
  private transaction, the private one, and leaves its changes in the execution state
  either way); the chain's \<^verbatim>\<open>pendingCrossTxs\<close> and \<^verbatim>\<open>foreignData\<close>; the hash of the block;
  and the end of the reference window. Reference heights are natural numbers: they are
  taken to stay below the range of \<^verbatim>\<open>uint64\<close>.\<close>

record ('db, 'snap, 'g, 'r, 'e) Processor =
  p_ops :: "('db, 'snap) StateOps"
  p_ApplyTransaction ::
    "DataCache option \<Rightarrow> Transaction \<Rightarrow> ('db, 'g) Exec \<Rightarrow> ('e + 'r \<times> 'r option) \<times> ('db, 'g) Exec"
  p_pendingCrossTxs :: "nat \<rightharpoonup> CrossShardTxs"
  p_foreignData :: "nat \<rightharpoonup> DataCache"
  p_blockHash :: hash
  p_end :: nat

text \<open>The variables of the loop: the execution state, \<^verbatim>\<open>dc\<close>, \<^verbatim>\<open>curr\<close>, \<^verbatim>\<open>receipts\<close> and
  \<^verbatim>\<open>privateReceipts\<close> (the list of logs, which repeats the logs of the receipts, is left
  out).\<close>

record ('db, 'g, 'r) Proc =
  pr_exec :: "('db, 'g) Exec"
  pr_dc :: "DataCache option"
  pr_curr :: nat
  pr_receipts :: "'r list"
  pr_privateReceipts :: "'r list"

text \<open>The search for the cache of a cross-shard-local transaction: \<^verbatim>\<open>curr\<close> advances
  through the window until a reference height holds a pending transaction with the same
  hash; \<^verbatim>\<open>dc\<close> becomes the cache stored for that height (nil when there is none). When
  no height matches, \<^verbatim>\<open>dc\<close> keeps its value.\<close>

function findDc ::
  "(nat \<rightharpoonup> CrossShardTxs) \<Rightarrow> (nat \<rightharpoonup> DataCache) \<Rightarrow> hash \<Rightarrow> nat \<Rightarrow> nat \<Rightarrow> DataCache option
     \<Rightarrow> DataCache option \<times> nat" where
  "findDc pending foreign h endRef cur dc =
     (if cur \<le> endRef then
        (if list_ex (\<lambda>entry. h = tx_Hash (ctx_Tx (snd entry)))
              (case pending cur of None \<Rightarrow> [] | Some txs \<Rightarrow> txs)
         then (foreign cur, cur)
         else findDc pending foreign h endRef (Suc cur) dc)
      else (dc, cur))"
  by pat_completeness auto
termination
  by (relation "measure (\<lambda>(pending, foreign, h, endRef, cur, dc). Suc endRef - cur)") auto

declare findDc.simps [simp del]

text \<open>The head of the loop body, up to the call of \<^verbatim>\<open>ApplyTransaction\<close>: both databases
  are prepared, both snapshots are taken, and \<^verbatim>\<open>dc\<close> is chosen.\<close>

definition prepare ::
  "('db, 'snap, 'g, 'r, 'e) Processor \<Rightarrow> nat \<Rightarrow> Transaction \<Rightarrow> ('db, 'g, 'r) Proc
     \<Rightarrow> 'snap \<times> 'snap \<times> DataCache option \<times> nat \<times> ('db, 'g) Exec" where
  "prepare P i tx st =
     (let x = pr_exec st;
          sdb = so_Prepare (p_ops P) (tx_Hash tx) (p_blockHash P) i (x_statedb x);
          pdb = so_Prepare (p_ops P) (tx_Hash tx) (p_blockHash P) i (x_privateState x);
          s = so_Snapshot (p_ops P) sdb;
          ps = so_Snapshot (p_ops P) pdb;
          d = (if tx_TxType tx \<noteq> CrossShardLocal then (None, pr_curr st)
               else findDc (p_pendingCrossTxs P) (p_foreignData P) (tx_Hash tx) (p_end P)
                      (pr_curr st) (pr_dc st))
      in (fst s, fst ps, fst d, snd d, x\<lparr>x_statedb := snd s, x_privateState := snd ps\<rparr>))"

text \<open>The state with which the loop goes on after a cross-shard-local transaction
  failed: both databases reverted to their snapshots, no receipt added.\<close>

definition skipped ::
  "('db, 'snap, 'g, 'r, 'e) Processor \<Rightarrow> 'snap \<Rightarrow> 'snap \<Rightarrow> DataCache option \<Rightarrow> nat
     \<Rightarrow> ('db, 'g) Exec \<Rightarrow> ('db, 'g, 'r) Proc \<Rightarrow> ('db, 'g, 'r) Proc" where
  "skipped P snap psnap dc cur x' st =
     st\<lparr>pr_exec := x'\<lparr>x_statedb := so_RevertToSnapshot (p_ops P) snap (x_statedb x'),
                       x_privateState := so_RevertToSnapshot (p_ops P) psnap (x_privateState x')\<rparr>,
        pr_dc := dc, pr_curr := cur\<rparr>"

text \<open>The loop body: an error of a cross-shard-local transaction reverts and continues,
  any other error is returned, a success appends the receipts.\<close>

definition processTx ::
  "('db, 'snap, 'g, 'r, 'e) Processor \<Rightarrow> nat \<Rightarrow> Transaction \<Rightarrow> ('db, 'g, 'r) Proc
     \<Rightarrow> 'e + ('db, 'g, 'r) Proc" where
  "processTx P i tx st =
     (case prepare P i tx st of (snap, psnap, dc, cur, x) \<Rightarrow>
        (case p_ApplyTransaction P dc tx x of
           (Inl err, x') \<Rightarrow>
             if tx_TxType tx = CrossShardLocal then Inr (skipped P snap psnap dc cur x' st)
             else Inl err
         | (Inr (receipt, privateReceipt), x') \<Rightarrow>
             Inr (st\<lparr>pr_exec := x', pr_dc := dc, pr_curr := cur,
                     pr_receipts := pr_receipts st @ [receipt],
                     pr_privateReceipts :=
                       (case privateReceipt of
                          None \<Rightarrow> pr_privateReceipts st
                        | Some r \<Rightarrow> pr_privateReceipts st @ [r])\<rparr>)))"

text \<open>The loop of \<^verbatim>\<open>Process\<close> over the transactions of the block, from index \<open>i\<close>.\<close>

fun processTxs ::
  "('db, 'snap, 'g, 'r, 'e) Processor \<Rightarrow> nat \<Rightarrow> Transaction list \<Rightarrow> ('db, 'g, 'r) Proc
     \<Rightarrow> 'e + ('db, 'g, 'r) Proc" where
  "processTxs P i [] st = Inr st"
| "processTxs P i (tx # txs) st =
     (case processTx P i tx st of Inl err \<Rightarrow> Inl err | Inr st' \<Rightarrow> processTxs P (Suc i) txs st')"

text \<open>A processor for evaluation: the database is a number, a snapshot is a copy, and
  the transaction with hash 13 fails after adding 1 to both databases, while any other
  adds 10 to the public one and yields the receipt 1.\<close>

definition testProcessor :: "(int, int, unit, nat, string) Processor" where
  "testProcessor =
     \<lparr>p_ops = \<lparr>so_Prepare = (\<lambda>h b i db. db), so_Snapshot = (\<lambda>db. (db, db)),
               so_RevertToSnapshot = (\<lambda>snap db. snap)\<rparr>,
      p_ApplyTransaction = (\<lambda>dc tx x.
        if tx_Hash tx = 13
        then (Inl ''out of gas'', x\<lparr>x_statedb := x_statedb x + 1, x_privateState := x_privateState x + 1\<rparr>)
        else (Inr (1, None), x\<lparr>x_statedb := x_statedb x + 10\<rparr>)),
      p_pendingCrossTxs = Map.empty, p_foreignData = Map.empty, p_blockHash = 0, p_end = 0\<rparr>"

definition testProc :: "(int, unit, nat) Proc" where
  "testProc = \<lparr>pr_exec = \<lparr>x_statedb = 100, x_privateState = 200, x_gp = (), x_usedGas = 0\<rparr>,
     pr_dc = None, pr_curr = 0, pr_receipts = [], pr_privateReceipts = []\<rparr>"

definition failingTx :: "uint64 \<Rightarrow> Transaction" where
  "failingTx kind = \<lparr>tx_TxType = kind, tx_Hash = 13, tx_Data = []\<rparr>"

definition passingTx :: Transaction where
  "passingTx = \<lparr>tx_TxType = IntraShard, tx_Hash = 14, tx_Data = []\<rparr>"

section \<open>A new head of the reference chain\<close>

text \<open>\<^verbatim>\<open>(*BlockChain).CtxExist\<close>: the reference height has pending cross-shard
  transactions of this shard.\<close>

definition CtxExist :: "(uint64 \<rightharpoonup> CrossShardTxs) \<Rightarrow> uint64 \<Rightarrow> bool" where
  "CtxExist pendingCrossTxs num =
     (case pendingCrossTxs num of None \<Rightarrow> False | Some ctx \<Rightarrow> length ctx > 0)"

text \<open>The scan of \<^verbatim>\<open>newWorkLoop\<close> over the reference heights, \<^verbatim>\<open>curRefNum++\<close> on
  \<^verbatim>\<open>uint64\<close>. The result is the flag \<^verbatim>\<open>reorg\<close>; a scan that does not end has no result.\<close>

partial_function (option) scanCtx :: "(uint64 \<Rightarrow> bool) \<Rightarrow> uint64 \<Rightarrow> uint64 \<Rightarrow> bool option" where
  "scanCtx exist curRefNum newRefNum =
     (if curRefNum \<le> newRefNum then
        (if exist curRefNum then Some True else scanCtx exist (curRefNum + 1) newRefNum)
      else Some False)"

text \<open>What the worker does on the event, in order: the calls and sends that leave the
  loop.\<close>

datatype action =
    NotifyUpdate uint64
  | SignalCrossWork
  | LogReorg uint64 uint64 uint64 int
  | ResetHead uint64
  | SetHead uint64
  | NewChainHead bool
  | Sleep nat
  | Commit bool bool int int

definition commitInterruptNewHead :: int where
  "commitInterruptNewHead = 1"

text \<open>What the case reads: the number of the new reference block; number and reference
  number of the local head; the last committed height; the pending cross-shard
  transactions; the clock when \<^verbatim>\<open>timestamp\<close> is set and when the log line is written;
  whether the \<^verbatim>\<open>reorg\<close> file can be opened; whether the engine is a
  \<^verbatim>\<open>consensus.Handler\<close>.\<close>

record RefHead =
  rh_newRefNum :: uint64
  rh_parentNum :: uint64
  rh_parentRef :: uint64
  rh_commitNum :: uint64
  rh_pendingCrossTxs :: "uint64 \<rightharpoonup> CrossShardTxs"
  rh_now :: int
  rh_logNow :: int
  rh_fileOpens :: bool
  rh_isHandler :: bool

text \<open>The rewind inside \<^verbatim>\<open>if parentNum > commitNum\<close>.\<close>

definition rewind :: "RefHead \<Rightarrow> action list" where
  "rewind e =
     (if rh_fileOpens e
      then [LogReorg (rh_newRefNum e) (rh_parentNum e) (rh_commitNum e) (rh_logNow e)] else [])
     @ [ResetHead (rh_commitNum e), SetHead (rh_commitNum e)]
     @ (if rh_isHandler e then [NewChainHead True] else [])"

text \<open>The case \<^verbatim>\<open>head := <-w.rChainHeadCh\<close> of \<^verbatim>\<open>newWorkLoop\<close>.\<close>

definition onRefHead :: "RefHead \<Rightarrow> action list option" where
  "onRefHead e =
     (if rh_parentNum e \<ge> rh_commitNum e then
        (case scanCtx (CtxExist (rh_pendingCrossTxs e)) (rh_parentRef e + 1) (rh_newRefNum e) of
           None \<Rightarrow> None
         | Some reorg \<Rightarrow>
             Some ([NotifyUpdate (rh_newRefNum e), SignalCrossWork] @
                   (if reorg then
                      (if rh_parentNum e > rh_commitNum e then rewind e else [])
                      @ [Sleep 2, Commit False True commitInterruptNewHead (rh_now e)]
                    else [])))
      else Some [NotifyUpdate (rh_newRefNum e)])"

text \<open>A pending cross-shard transaction exists at a height in \<open>(parentRef, newRef]\<close>.\<close>

definition ctxInRange :: "RefHead \<Rightarrow> bool" where
  "ctxInRange e =
     (\<exists>n. rh_parentRef e < n \<and> n \<le> rh_newRefNum e \<and> CtxExist (rh_pendingCrossTxs e) n)"

text \<open>The fourth scenario: local head 10 built on reference 4, last commit at 6, the new
  reference head is 7, and reference block 6 holds a cross-shard transaction of this
  shard.\<close>

definition reorgScenario :: RefHead where
  "reorgScenario = \<lparr>rh_newRefNum = 7, rh_parentNum = 10, rh_parentRef = 4, rh_commitNum = 6,
     rh_pendingCrossTxs = [6 \<mapsto> [(0, localCtx)]], rh_now = 1000, rh_logNow = 1001,
     rh_fileOpens = True, rh_isHandler = False\<rparr>"

section \<open>The recommit interval\<close>












section \<open>Properties of the transfer functions\<close>

text \<open>Claim C10. With a cache given, \<^verbatim>\<open>CanTransfer\<close> answers false for every address
  that the cache's address-to-shard map does not contain, whatever the balance of the
  address in the local state and whatever the amount.\<close>

theorem CanTransfer_unmapped_false:
  "dc_AddrToShard c addr = None \<Longrightarrow> CanTransfer (Some c) bshard I db addr amount = Inr False"
  by (simp add: CanTransfer_def)

theorem CanTransfer_unmapped_false_witness:
  "dc_AddrToShard remoteCache 7 = None \<and>
   CanTransfer (Some remoteCache) 1 tableDB (\<lambda>_. 100, \<lambda>_. 0) 7 10 = Inr False"
  using CanTransfer_unmapped_false [of remoteCache 7 1 tableDB "(\<lambda>_. 100, \<lambda>_. 0)" 10]
  by (simp add: remoteCache_def NewDataCache_def)

text \<open>Claim C7, as the code has it. When the recipient is mapped to another shard, has
  no entry in the cache's values table and none yet in the changes map, and the sender
  half of \<^verbatim>\<open>Transfer\<close> has completed, the credit is recorded in the changes map in an
  entry that starts from the recipient's balance and nonce in the local state database
  (not from zero), and the state database is not credited.\<close>

theorem Transfer_recipient_without_values:
  assumes "Transfer_sender bshard c dcChanges I db sender recipient amount = Inr (ch, db')"
    and "shardOf c recipient \<noteq> bshard"
    and "dc_Values c recipient = None"
    and "ch recipient = None"
  shows "Transfer bshard (Some c) dcChanges I db sender recipient amount =
           Inr (ch(recipient \<mapsto>
                  \<lparr>cd_Addr = recipient,
                   cd_Balance = Uint64 (GetBalance I db' recipient) + Uint64 amount,
                   cd_Nonce = GetNonce I db' recipient, cd_Data = Map.empty\<rparr>), db')"
  using assms by (simp add: Transfer_def Transfer_recipient_def fromState_def)

theorem Transfer_recipient_without_values_witness:
  "Transfer_sender 1 remoteCache Map.empty tableDB (\<lambda>_. 100, \<lambda>_. 3) 1 2 5
     = Inr (Map.empty, ((\<lambda>_. 100)(1 := 95), \<lambda>_. 3)) \<and>
   shardOf remoteCache 2 \<noteq> 1 \<and> dc_Values remoteCache 2 = None \<and>
   (Map.empty :: address \<rightharpoonup> CData) 2 = None \<and>
   Transfer 1 (Some remoteCache) Map.empty tableDB (\<lambda>_. 100, \<lambda>_. 3) 1 2 5 =
     Inr ([2 \<mapsto> \<lparr>cd_Addr = 2, cd_Balance = 105, cd_Nonce = 3, cd_Data = Map.empty\<rparr>],
          ((\<lambda>_. 100)(1 := 95), \<lambda>_. 3))"
proof -
  have s: "Transfer_sender 1 remoteCache Map.empty tableDB (\<lambda>_. 100, \<lambda>_. 3) 1 2 5
     = Inr (Map.empty, ((\<lambda>_. 100)(1 := 95), \<lambda>_. 3))"
    by (simp add: Transfer_sender_def shardOf_def remoteCache_def NewDataCache_def tableDB_def)
  have r: "shardOf remoteCache 2 \<noteq> 1"
    by (simp add: shardOf_def remoteCache_def NewDataCache_def)
  have v: "dc_Values remoteCache 2 = None"
    by (simp add: remoteCache_def NewDataCache_def)
  have e: "(Map.empty :: address \<rightharpoonup> CData) 2 = None" by simp
  have b: "Uint64 100 + Uint64 5 = 105" by (simp add: Uint64_def)
  from Transfer_recipient_without_values [OF s r v e] s r v b show ?thesis
    by (simp add: tableDB_def)
qed

text \<open>The claim as written does not hold: for the address 2, mapped to shard 2 and
  without cached values, \<^verbatim>\<open>CanTransfer\<close> panics on the nil pointer, a transfer that
  debits it panics as well, and a transfer that credits it starts from the balance 100
  and the nonce 3 of the local state.\<close>

theorem Transfer_missing_values_counterexample:
  "CanTransfer (Some remoteCache) 1 tableDB (\<lambda>_. 100, \<lambda>_. 3) 2 0 = Inl NilPointer \<and>
   Transfer 1 (Some remoteCache) Map.empty tableDB (\<lambda>_. 100, \<lambda>_. 3) 2 1 5 = Inl NilPointer \<and>
   Transfer 1 (Some remoteCache) Map.empty tableDB (\<lambda>_. 100, \<lambda>_. 3) 1 2 5 =
     Inr ([2 \<mapsto> \<lparr>cd_Addr = 2, cd_Balance = 105, cd_Nonce = 3, cd_Data = Map.empty\<rparr>],
          ((\<lambda>_. 100)(1 := 95), \<lambda>_. 3))"
  by (simp add: CanTransfer_def Transfer_def Transfer_sender_def Transfer_recipient_def
      shardOf_def fromState_def Uint64_def remoteCache_def NewDataCache_def tableDB_def)

section \<open>Properties of the foreign-data cache\<close>

lemma foldE_preserves:
  assumes "\<And>x s s'. f x s = Inr s' \<Longrightarrow> P s \<Longrightarrow> P s'"
  shows "foldE f xs s = Inr s' \<Longrightarrow> P s \<Longrightarrow> P s'"
proof (induction xs arbitrary: s)
  case Nil
  then show ?case by simp
next
  case (Cons x xs)
  then show ?case using assms by (auto split: sum.splits)
qed

lemma addValues_counters: "addValues v dc = Inr dc' \<Longrightarrow> counters dc' = counters dc"
  by (auto simp: addValues_def counters_def split: option.splits sum.splits)

lemma addValues_fold_counters: "foldE addValues vs dc = Inr dc' \<Longrightarrow> counters dc' = counters dc"
  using foldE_preserves [where f = addValues and P = "\<lambda>d. counters d = c" for c]
  by (metis addValues_counters)

lemma AddData_status:
  "AddData shard vals dc = Inr dc' \<Longrightarrow>
   (dc_Status dc \<longrightarrow> dc_Status dc') \<and>
   ((dc_Received dc = dc_Required dc \<longrightarrow> dc_Status dc) \<longrightarrow>
    (dc_Received dc' = dc_Required dc' \<longrightarrow> dc_Status dc'))"
  by (auto simp: AddData_def Let_def counters_def split: if_splits sum.splits
      dest!: addValues_fold_counters)

lemma addKey_counters: "addKey a k dc = Inr dc' \<Longrightarrow> counters dc' = counters dc"
  by (auto simp: addKey_def counters_def split: option.splits)

lemma initContract_counters: "initContract sh c dc = Inr dc' \<Longrightarrow> counters dc' = counters dc"
proof -
  assume a: "initContract sh c dc = Inr dc'"
  have "\<And>xs s s'. foldE (addKey (ck_Addr c)) xs s = Inr s' \<Longrightarrow> counters s' = counters s"
    using foldE_preserves [where f = "addKey (ck_Addr c)" and P = "\<lambda>d. counters d = v" for v]
    by (metis addKey_counters)
  from this a show ?thesis
    by (fastforce simp: initContract_def Let_def counters_def split: if_splits)
qed

lemma initShard_statusReceived:
  "initShard m cm e dc = Inr dc' \<Longrightarrow> statusReceived dc' = statusReceived dc"
proof -
  assume a: "initShard m cm e dc = Inr dc'"
  have "\<And>xs s s'. foldE (initContract (fst e)) xs s = Inr s' \<Longrightarrow> counters s' = counters s"
    using foldE_preserves [where f = "initContract (fst e)" and P = "\<lambda>d. counters d = v" for v]
    by (metis initContract_counters)
  from this a show ?thesis
    by (fastforce simp: initShard_def Let_def counters_def statusReceived_def split: if_splits)
qed

lemma initCtx_statusReceived:
  "initCtx m cm e dc = Inr dc' \<Longrightarrow> statusReceived dc' = statusReceived dc"
proof -
  assume a: "initCtx m cm e dc = Inr dc'"
  have "\<And>xs s s'. foldE (initShard m cm) xs s = Inr s' \<Longrightarrow> statusReceived s' = statusReceived s"
    using foldE_preserves [where f = "initShard m cm" and P = "\<lambda>d. statusReceived d = v" for v]
    by (metis initShard_statusReceived)
  from this a show ?thesis
    by (fastforce simp: initCtx_def split: if_splits)
qed

lemma InitKeys_status:
  "InitKeys m ctxs cm dc = Inr (b, dc') \<Longrightarrow>
   (dc_Status dc \<longrightarrow> dc_Status dc') \<and> (dc_Received dc' = dc_Required dc' \<longrightarrow> dc_Status dc') \<and>
   b = (dc_Received dc' = dc_Required dc') \<and> dc_Received dc' = 0"
proof -
  assume a: "InitKeys m ctxs cm dc = Inr (b, dc')"
  have "\<And>xs s s'. foldE (initCtx m cm) xs s = Inr s' \<Longrightarrow> statusReceived s' = statusReceived s"
    using foldE_preserves [where f = "initCtx m cm" and P = "\<lambda>d. statusReceived d = v" for v]
    by (metis initCtx_statusReceived)
  from this a show ?thesis
    by (fastforce simp: InitKeys_def statusReceived_def split: if_splits sum.splits)
qed

lemma applyOp_status:
  "applyOp x dc = Inr dc' \<Longrightarrow>
   (dc_Status dc \<longrightarrow> dc_Status dc') \<and>
   ((isInitKeys x \<or> (dc_Received dc = dc_Required dc \<longrightarrow> dc_Status dc)) \<longrightarrow>
    (dc_Received dc' = dc_Required dc' \<longrightarrow> dc_Status dc'))"
proof (cases x)
  case (OpInitKeys m c k)
  assume "applyOp x dc = Inr dc'"
  with OpInitKeys obtain b where "InitKeys m c k dc = Inr (b, dc')"
    by (auto split: sum.splits)
  from InitKeys_status [OF this] OpInitKeys show ?thesis by simp
next
  case (OpAddData sh v)
  assume "applyOp x dc = Inr dc'"
  with OpAddData have "AddData sh v dc = Inr dc'" by simp
  from AddData_status [OF this] OpAddData show ?thesis by simp
qed

lemma runOps_status:
  "foldE applyOp ops dc = Inr dc' \<Longrightarrow>
   (dc_Status dc \<longrightarrow> dc_Status dc') \<and>
   ((list_ex isInitKeys ops \<or> (dc_Received dc = dc_Required dc \<longrightarrow> dc_Status dc)) \<longrightarrow>
    (dc_Received dc' = dc_Required dc' \<longrightarrow> dc_Status dc'))"
proof (induction ops arbitrary: dc)
  case Nil
  then show ?case by simp
next
  case (Cons x xs)
  from Cons.prems obtain d1 where s: "applyOp x dc = Inr d1" and r: "foldE applyOp xs d1 = Inr dc'"
    by (auto split: sum.splits)
  from applyOp_status [OF s] Cons.IH [OF r] show ?case
    by (cases "isInitKeys x") auto
qed

text \<open>Claim C6, as the code has it. Over every sequence of \<^verbatim>\<open>InitKeys\<close> and \<^verbatim>\<open>AddData\<close>
  calls on a cache entry that runs to its end, the ready flag is monotone: an entry that
  was ready before the calls is ready after them. And once \<^verbatim>\<open>InitKeys\<close> has run, equal
  counters imply the flag: if received equals required, the entry is ready. The converse
  is not kept: the flag survives a later change of the counters.\<close>

theorem DataCache_ready_monotone:
  assumes "readiness (runOps ops dc) = Some (ready, received, required)"
  shows "(dc_Status dc \<longrightarrow> ready) \<and> (list_ex isInitKeys ops \<longrightarrow> received = required \<longrightarrow> ready)"
proof -
  from assms obtain dc' where r: "foldE applyOp ops dc = Inr dc'"
    and v: "ready = dc_Status dc'" "received = dc_Received dc'" "required = dc_Required dc'"
    by (auto simp: readiness_def runOps_def split: sum.splits)
  from runOps_status [OF r] v show ?thesis by blast
qed

theorem DataCache_ready_monotone_witness:
  "readiness (runOps [OpInitKeys 1 [(0, remoteCtx)] Map.empty, OpAddData 2 [values8]]
      (NewDataCache 6 False)) = Some (True, 1, 1) \<and>
   list_ex isInitKeys [OpInitKeys 1 [(0, remoteCtx)] Map.empty, OpAddData 2 [values8]]"
proof -
  have h: "readiness (runOps [OpInitKeys 1 [(0, remoteCtx)] Map.empty, OpAddData 2 [values8]]
      (NewDataCache 6 False)) = Some (True, 1, 1)"
    by (simp add: readiness_def runOps_def InitKeys_def AddData_def initCtx_def initShard_def
        initContract_def addKey_def addValues_def remoteCtx_def values8_def NewDataCache_def)
  from DataCache_ready_monotone [OF h] h show ?thesis by simp
qed

text \<open>The equivalence of the claim fails in both directions. A fresh entry has equal
  counters and is not ready. After data of shard 2 made the entry ready, data of a shard
  that was never required moves received past required, and a second \<^verbatim>\<open>InitKeys\<close> that
  adds shard 3 resets received to 0 with required 1; the entry stays ready both times.\<close>

theorem DataCache_ready_iff_counterexample:
  "readiness (Inr (NewDataCache 6 False)) = Some (False, 0, 0) \<and>
   readiness (runOps [OpInitKeys 1 [(0, remoteCtx)] Map.empty, OpAddData 2 [values8],
      OpAddData 3 [values8]] (NewDataCache 6 False)) = Some (True, 2, 1) \<and>
   readiness (runOps [OpInitKeys 1 [(0, remoteCtx)] Map.empty, OpAddData 2 [values8],
      OpInitKeys 1 [(0, remoteCtx), (1, remoteCtx3)] Map.empty] (NewDataCache 6 False))
     = Some (True, 0, 1)"
  by (simp add: readiness_def runOps_def InitKeys_def AddData_def initCtx_def initShard_def
      initContract_def addKey_def addValues_def remoteCtx_def remoteCtx3_def values8_def
      NewDataCache_def)

section \<open>Properties of the lock manager\<close>


























text \<open>The read-write sets of the scenario are what \<^verbatim>\<open>GetAllRWSet\<close> decodes from the bytes
  of a write and of a read of key 1 of contract 10: a written key is listed under
  \<^verbatim>\<open>Keys\<close> and under \<^verbatim>\<open>WKeys\<close>.\<close>

lemma foldl_zeros_word:
  "foldl (\<lambda>acc x. acc * 256 + ucast x) (0 :: 'a::len word) (replicate n (0::byte)) = 0"
  by (induction n) simp_all

lemma GetAllRWSet_write: "GetAllRWSet 1 (rwBytes 1) = Inr (scenarioKeys T1, [2], 59)"
  by (simp add: GetAllRWSet_def GetRWSet_def slice16_def slice_def bindE_def rwBytes_def word32_def
      beWord_def foldl_zeros_word nth_append Let_def scenarioKeys_def T1_def)

lemma GetAllRWSet_read: "GetAllRWSet 1 (rwBytes 0) = Inr (scenarioKeys T2, [2], 59)"
  by (simp add: GetAllRWSet_def GetRWSet_def slice16_def slice_def bindE_def rwBytes_def word32_def
      beWord_def foldl_zeros_word nth_append Let_def scenarioKeys_def T2_def)

section \<open>Properties of the decoder and of the commitment filter\<close>

lemma foldl_zeros:
  "foldl (\<lambda>acc x. acc * 256 + ucast x) 0 (replicate n (0::byte)) = (0::uint64)"
  by (induction n) simp_all

lemma DecodeStateCommit_commitTx: "DecodeStateCommit f (commitTx h s b r ro bh) = Inr (ucast s, ucast b, ucast r, f (word32 ro @ word32 bh))"
  by (simp add: DecodeStateCommit_def commitTx_def commitPayload_def word32_def bindE_def slice_def sliceFrom_def beUint64_def foldl_zeros)

text \<open>Claim C8, on a well-formed payload (shard 2, block 9, reference 5, state root 7,
  block hash 8). \<^verbatim>\<open>DecodeStateCommit\<close> returns four values: the three numbers and a
  single hash made from the 64 bytes that hold the state root and the block hash. The
  block hash is not returned as a fifth value.\<close>

theorem DecodeStateCommit_four_values:
  "DecodeStateCommit BytesToHash (commitTx 1 2 9 5 7 8)
     = Inr (2, 9, 5, BytesToHash (word32 7 @ word32 8))"
  by (simp add: DecodeStateCommit_commitTx)

lemma foldE_preserves_set:
  assumes "\<And>x s s'. x \<in> set xs \<Longrightarrow> f x s = Inr s' \<Longrightarrow> P s \<Longrightarrow> P s'"
    and "foldE f xs s = Inr s'" and "P s"
  shows "P s'"
  using assms
proof (induction xs arbitrary: s)
  case Nil then show ?case by simp
next
  case (Cons x xs)
  from Cons.prems(2) obtain s1 where s1: "f x s = Inr s1" "foldE f xs s1 = Inr s'"
    by (auto split: sum.splits)
  have p1: "P s1" using Cons.prems(1) [of x s s1] s1(1) Cons.prems(3) by simp
  show ?case
  proof (rule Cons.IH [OF _ s1(2) p1])
    fix y t t' assume "y \<in> set xs" "f y t = Inr t'" "P t"
    then show "P t'" using Cons.prems(1) [of y t t'] by simp
  qed
qed

lemma pickCommit_picked:
  assumes "tx \<in> set txs" and "pickCommit B L tx st = Inr st'" and "picked B L c0 r0 txs st"
  shows "picked B L c0 r0 txs st'"
proof -
  obtain m c r where st: "st = (m, c, r)" by (cases st)
  from assms(2) st obtain sh commit report y where d: "DecodeStateCommit B tx = Inr (sh, commit, report, y)"
    by (cases "DecodeStateCommit B tx") (auto simp: pickCommit_def bindE_def)
  from assms(2) st d have st': "st' = (if report \<ge> L then
                 (if report > r then (Some tx, commit, report)
                  else if report = r then
                    (if commit > c then (Some tx, commit, r) else (m, c, r))
                  else (m, c, r))
               else (m, c, r))"
    by (simp add: pickCommit_def bindE_def)
  from assms(3) st have base: "r > r0 \<or> r = r0 \<and> c \<ge> c0"
    by (auto simp: picked_def split: option.splits)
  show ?thesis
  proof (cases "report \<ge> L \<and> (report > r \<or> report = r \<and> commit > c)")
    case True
    with st' have "st' = (Some tx, commit, report)" by auto
    moreover from True base have "report > r0 \<or> report = r0 \<and> commit > c0" by auto
    ultimately show ?thesis using assms(1) d True by (auto simp: picked_def)
  next
    case False
    with st' have "st' = st" unfolding st by (auto split: if_splits)
    with assms(3) show ?thesis by simp
  qed
qed

lemma pick_loop_picked:
  assumes "foldE (pickCommit B L) txs (None, c0, r0) = Inr st'"
  shows "picked B L c0 r0 txs st'"
proof (rule foldE_preserves_set [where f = "pickCommit B L" and xs = txs and s = "(None, c0, r0)"])
  fix x s s' assume "x \<in> set txs" "pickCommit B L x s = Inr s'" "picked B L c0 r0 txs s"
  then show "picked B L c0 r0 txs s'" by (rule pickCommit_picked)
next
  show "foldE (pickCommit B L) txs (None, c0, r0) = Inr st'" by (rule assms)
next
  show "picked B L c0 r0 txs (None, c0, r0)" by (simp add: picked_def)
qed

lemma unlockKeys_fields:
  "w_addrShardMap (unlockKeys s w) = w_addrShardMap w \<and>
   w_lastCommit (unlockKeys s w) = w_lastCommit w \<and> w_lastCtx (unlockKeys s w) = w_lastCtx w"
  by (simp add: unlockKeys_def split: option.splits)

lemma commitsOfAddr_filtered:
  assumes "entry \<in> set stateTxs" and "commitsOfAddr B entry st = Inr st'"
    and "filtered B w stateTxs st"
  shows "filtered B w stateTxs st'"
proof -
  obtain nc w1 where st: "st = (nc, w1)" by (cases st)
  obtain addr txs where e: "entry = (addr, txs)" by (cases entry)
  from assms(3) st have same: "w_addrShardMap w1 = w_addrShardMap w"
    "w_lastCommit w1 = w_lastCommit w" "w_lastCtx w1 = w_lastCtx w"
    and old: "\<And>a l. nc a = Some l \<Longrightarrow> \<exists>tx txs. l = [tx] \<and> (a, txs) \<in> set stateTxs \<and> tx \<in> set txs \<and>
              acceptable B w (shardOfAddr w a) tx"
    by (auto simp: filtered_def)
  from same have sh: "shardOfAddr w1 addr = shardOfAddr w addr"
    and lc: "lastCtxOf w1 = lastCtxOf w"
    by (auto simp: shardOfAddr_def lastCtxOf_def fun_eq_iff)
  let ?s = "shardOfAddr w addr"
  from assms(2) st e sh same obtain lastc where lastc: "w_lastCommit w ?s = Some lastc"
    by (cases "w_lastCommit w ?s") (auto simp: commitsOfAddr_def Let_def)
  from assms(2) st e sh same lastc lc obtain m c r where
    loop: "foldE (pickCommit B (lastCtxOf w ?s)) txs (None, cm_BlockNum lastc, cm_RefNum lastc) = Inr (m, c, r)"
    by (cases "foldE (pickCommit B (lastCtxOf w ?s)) txs (None, cm_BlockNum lastc, cm_RefNum lastc)")
       (auto simp: commitsOfAddr_def Let_def bindE_def)
  note p = pick_loop_picked [OF loop]
  show ?thesis
  proof (cases m)
    case None
    with assms(2) st e sh same lastc lc loop have "st' = st"
      by (simp add: commitsOfAddr_def Let_def bindE_def)
    with assms(3) show ?thesis by simp
  next
    case (Some tx)
    with p have good: "tx \<in> set txs" "acceptable B w ?s tx"
      using lastc by (auto simp: picked_def acceptable_def)
    from good(2) obtain d where d: "DecodeStateCommit B tx = Inr d"
      by (cases "DecodeStateCommit B tx") (auto simp: acceptable_def)
    from assms(2) st e sh same lastc lc loop Some d
    have st': "st' = (nc(addr \<mapsto> [tx]), unlockKeys ?s w1)"
      by (simp add: commitsOfAddr_def Let_def bindE_def)
    from assms(1) e good old same show ?thesis
      unfolding st' by (auto simp: filtered_def unlockKeys_fields)
  qed
qed

lemma NewValidStateCommitments_filtered:
  assumes "NewValidStateCommitments B stateTxs w = Inr st'"
  shows "filtered B w stateTxs st'"
proof (rule foldE_preserves_set [where f = "commitsOfAddr B" and xs = stateTxs and s = "(Map.empty, w)"])
  fix x s s' assume "x \<in> set stateTxs" "commitsOfAddr B x s = Inr s'" "filtered B w stateTxs s"
  then show "filtered B w stateTxs s'" by (rule commitsOfAddr_filtered)
next
  show "foldE (commitsOfAddr B) stateTxs (Map.empty, w) = Inr st'"
    using assms by (simp add: NewValidStateCommitments_def)
next
  show "filtered B w stateTxs (Map.empty, w)" by (simp add: filtered_def)
qed

lemma fold_addr_origin:
  "fold (\<lambda>(shard, addr) m. if shard = 0 then m else m(BA addr \<mapsto> shard)) sm m a = Some s \<Longrightarrow>
   m a = Some s \<or> (\<exists>x. (s, x) \<in> set sm \<and> BA x = a)"
proof (induction sm arbitrary: m)
  case Nil then show ?case by simp
next
  case (Cons e sm)
  obtain sh x where e: "e = (sh, x)" by (cases e)
  from Cons.prems e have "(if sh = 0 then m else m(BA x \<mapsto> sh)) a = Some s \<or> (\<exists>x. (s, x) \<in> set sm \<and> BA x = a)"
    using Cons.IH [of "if sh = 0 then m else m(BA x \<mapsto> sh)"] by simp
  with e show ?case by (auto split: if_splits)
qed

lemma newAddrShardMap_inj:
  assumes "distinct (map fst sm)"
    and "newAddrShardMap BA sm a1 = Some s" and "newAddrShardMap BA sm a2 = Some s"
  shows "a1 = a2"
proof -
  from fold_addr_origin [of BA sm Map.empty a1 s] assms(2)
  obtain x1 where x1: "(s, x1) \<in> set sm" "BA x1 = a1" by (auto simp: newAddrShardMap_def)
  from fold_addr_origin [of BA sm Map.empty a2 s] assms(3)
  obtain x2 where x2: "(s, x2) \<in> set sm" "BA x2 = a2" by (auto simp: newAddrShardMap_def)
  from assms(1) x1(1) x2(1) have "x1 = x2" by (rule eq_key_imp_eq_value)
  with x1 x2 show ?thesis by simp
qed

lemma concat_at_most_one:
  assumes "distinct (map fst xs)"
    and "\<And>x y. x \<in> set xs \<Longrightarrow> y \<in> set xs \<Longrightarrow> g x \<noteq> [] \<Longrightarrow> g y \<noteq> [] \<Longrightarrow> fst x = fst y"
    and "\<And>x. x \<in> set xs \<Longrightarrow> length (g x) \<le> 1"
  shows "length (concat (map g xs)) \<le> 1"
  using assms
proof (induction xs)
  case Nil then show ?case by simp
next
  case (Cons x xs)
  show ?case
  proof (cases "g x = []")
    case True
    with Cons show ?thesis by simp
  next
    case False
    have "\<And>y. y \<in> set xs \<Longrightarrow> g y = []"
    proof (rule ccontr)
      fix y assume y: "y \<in> set xs" "g y \<noteq> []"
      with Cons.prems(2) [of x y] False have "fst x = fst y" by simp
      with Cons.prems(1) y(1) show False by (auto simp: image_iff)
    qed
    then have z: "concat (map g xs) = []" by simp
    have "concat (map g (x # xs)) = g x"
      by (simp only: list.map concat.simps z append_Nil2)
    then have "length (concat (map g (x # xs))) = length (g x)" by (rule arg_cong)
    also have "\<dots> \<le> 1" using Cons.prems(3) [of x] by simp
    finally show ?thesis .
  qed
qed


text \<open>Claim C2. Run on the reference shard, where \<^verbatim>\<open>newWorker\<close> has built
  \<^verbatim>\<open>addrShardMap\<close> from the map of shards to commit addresses, over pending commits whose
  sender addresses are all commit addresses of shards: for every shard at most one commit
  is accepted; the accepted commit is one of the candidates, its reported reference number
  is not below \<^verbatim>\<open>lastCtx[shard]\<close>, and it is above the shard's last commit in the order
  on (reference number, block number).\<close>

theorem state_commit_filter:
  assumes "NewValidStateCommitments B stateTxs w = Inr (newCommits, w')"
    and "distinct (map fst stateTxs)"
    and "w_addrShardMap w = newAddrShardMap BA shardAddMap"
    and "distinct (map fst shardAddMap)"
    and "list_all (\<lambda>entry. w_addrShardMap w (fst entry) \<noteq> None) stateTxs"
  shows "length (acceptedFor w stateTxs newCommits shard) \<le> 1 \<and>
         list_all (acceptable B w shard) (acceptedFor w stateTxs newCommits shard) \<and>
         set (acceptedFor w stateTxs newCommits shard) \<subseteq> set (concat (map snd stateTxs))"
proof -
  let ?g = "\<lambda>entry. if shardOfAddr w (fst entry) = shard then
         (case newCommits (fst entry) of None \<Rightarrow> [] | Some l \<Rightarrow> l) else []"
  from NewValidStateCommitments_filtered [OF assms(1)]
  have f: "\<And>addr l. newCommits addr = Some l \<Longrightarrow>
      \<exists>tx txs. l = [tx] \<and> (addr, txs) \<in> set stateTxs \<and> tx \<in> set txs \<and>
        acceptable B w (shardOfAddr w addr) tx"
    by (auto simp: filtered_def)
  have known: "\<And>x. x \<in> set stateTxs \<Longrightarrow> w_addrShardMap w (fst x) = Some (shardOfAddr w (fst x))"
    using assms(5) by (auto simp: list_all_iff shardOfAddr_def)
  have one: "length (concat (map ?g stateTxs)) \<le> 1"
  proof (rule concat_at_most_one [OF assms(2)])
    fix x y assume x: "x \<in> set stateTxs" and y: "y \<in> set stateTxs"
      and gx: "?g x \<noteq> []" and gy: "?g y \<noteq> []"
    from gx have sx: "shardOfAddr w (fst x) = shard" by (auto split: if_splits)
    from gy have sy: "shardOfAddr w (fst y) = shard" by (auto split: if_splits)
    from known [OF x] known [OF y] sx sy assms(3)
    have "newAddrShardMap BA shardAddMap (fst x) = Some shard"
      "newAddrShardMap BA shardAddMap (fst y) = Some shard" by simp_all
    then show "fst x = fst y" by (rule newAddrShardMap_inj [OF assms(4)])
  next
    fix x assume "x \<in> set stateTxs"
    show "length (?g x) \<le> 1"
      using f [of "fst x"] by (auto split: option.splits)
  qed
  have elems: "\<And>tx. tx \<in> set (concat (map ?g stateTxs)) \<Longrightarrow>
      acceptable B w shard tx \<and> tx \<in> set (concat (map snd stateTxs))"
  proof -
    fix tx assume "tx \<in> set (concat (map ?g stateTxs))"
    then have "\<exists>x \<in> set stateTxs. tx \<in> set (?g x)"
      unfolding set_concat set_map by blast
    then obtain x where x: "x \<in> set stateTxs" "tx \<in> set (?g x)" by blast
    from x(2) have sh: "shardOfAddr w (fst x) = shard"
      by (cases "shardOfAddr w (fst x) = shard") simp_all
    with x(2) have "tx \<in> set (case newCommits (fst x) of None \<Rightarrow> [] | Some l \<Rightarrow> l)" by simp
    then obtain l where l2: "newCommits (fst x) = Some l" "tx \<in> set l"
      by (cases "newCommits (fst x)") auto
    note l = sh l2
    from f [OF l(2)] l show "acceptable B w shard tx \<and> tx \<in> set (concat (map snd stateTxs))"
      by force
  qed
  from one elems show ?thesis
    by (auto simp: acceptedFor_def list_all_iff)
qed

theorem state_commit_filter_witness:
  "NewValidStateCommitments (\<lambda>b. 0) [(20, [C1tx, C2tx])] refWorker
      = Inr ([20 \<mapsto> [C2tx]], refWorker) \<and>
   acceptedFor refWorker [(20, [C1tx, C2tx])] [20 \<mapsto> [C2tx]] 2 = [C2tx] \<and>
   acceptable (\<lambda>b. 0) refWorker 2 C2tx"
proof -
  have run: "NewValidStateCommitments (\<lambda>b. 0) [(20, [C1tx, C2tx])] refWorker
      = Inr ([20 \<mapsto> [C2tx]], refWorker)"
    by (simp add: NewValidStateCommitments_def commitsOfAddr_def pickCommit_def C1tx_def
        C2tx_def DecodeStateCommit_commitTx bindE_def refWorker_def emptyWorker_def
        newAddrShardMap_def shardOfAddr_def lastCtxOf_def unlockKeys_def)
  have d1: "distinct (map fst [(20 :: address, [C1tx, C2tx])])" by simp
  have m: "w_addrShardMap refWorker = newAddrShardMap word_of_int [(1, 10), (2, 20)]"
    by (simp add: refWorker_def emptyWorker_def)
  have d2: "distinct (map fst [(1 :: uint64, 10 :: int), (2, 20)])" by simp
  have k: "list_all (\<lambda>entry. w_addrShardMap refWorker (fst entry) \<noteq> None) [(20, [C1tx, C2tx])]"
    by (simp add: refWorker_def emptyWorker_def newAddrShardMap_def)
  have a: "acceptedFor refWorker [(20, [C1tx, C2tx])] [20 \<mapsto> [C2tx]] 2 = [C2tx]"
    by (simp add: acceptedFor_def shardOfAddr_def refWorker_def emptyWorker_def newAddrShardMap_def)
  from state_commit_filter [OF run d1 m d2 k, of 2] run a show ?thesis by simp
qed

section \<open>Properties of the processing of reference blocks\<close>















lemma fold_delete_addr:
  "fold (\<lambda>addr m. m(addr := None)) xs m a = (if a \<in> set xs then None else m a)"
  by (induction xs arbitrary: m) auto

lemma Process_unlock_releases:
  assumes "pl_lockedAddrMap st s = Some la" and "la \<noteq> []"
  shows "(\<forall>a \<in> set la. pl_lockedAddr (Process_unlock s st) a = None) \<and>
         pl_lockedAddrMap (Process_unlock s st) s = None"
  using assms by (simp add: Process_unlock_def fold_delete_addr)



section \<open>Properties of the execution loop\<close>

text \<open>Claim C4. Let the application of a transaction of the block return an error. If
  the transaction is cross-shard-local, the loop goes on with the next transaction from
  the state in which the public and the private database are reverted to the snapshots
  taken before the application (after \<^verbatim>\<open>Prepare\<close>), with the lists of receipts as they
  were. If it is of any other kind, \<^verbatim>\<open>Process\<close> returns the error.\<close>

theorem failed_transaction:
  assumes "prepare P i tx st = (snap, psnap, dc, cur, x)"
    and "p_ApplyTransaction P dc tx x = (Inl err, x')"
  shows "(tx_TxType tx = CrossShardLocal \<longrightarrow>
            processTxs P i (tx # txs) st
              = processTxs P (Suc i) txs (skipped P snap psnap dc cur x' st) \<and>
            pr_receipts (skipped P snap psnap dc cur x' st) = pr_receipts st \<and>
            pr_privateReceipts (skipped P snap psnap dc cur x' st) = pr_privateReceipts st \<and>
            x_statedb (pr_exec (skipped P snap psnap dc cur x' st))
              = so_RevertToSnapshot (p_ops P) snap (x_statedb x') \<and>
            x_privateState (pr_exec (skipped P snap psnap dc cur x' st))
              = so_RevertToSnapshot (p_ops P) psnap (x_privateState x')) \<and>
         (tx_TxType tx \<noteq> CrossShardLocal \<longrightarrow> processTxs P i (tx # txs) st = Inl err) \<and>
         snap = fst (so_Snapshot (p_ops P)
                  (so_Prepare (p_ops P) (tx_Hash tx) (p_blockHash P) i (x_statedb (pr_exec st)))) \<and>
         psnap = fst (so_Snapshot (p_ops P)
                  (so_Prepare (p_ops P) (tx_Hash tx) (p_blockHash P) i (x_privateState (pr_exec st))))"
  using assms by (auto simp: processTx_def skipped_def prepare_def Let_def)

text \<open>On the test processor, whose transaction 13 fails after changing both databases:
  as a cross-shard-local transaction it is skipped, the databases are back at 100 and
  200 before the next transaction adds 10, and only that one leaves a receipt; as an
  intra-shard transaction it makes \<^verbatim>\<open>Process\<close> return the error.\<close>

theorem failed_transaction_witness:
  "processTxs testProcessor 0 [failingTx CrossShardLocal, passingTx] testProc
     = Inr (testProc\<lparr>pr_exec := \<lparr>x_statedb = 110, x_privateState = 200, x_gp = (), x_usedGas = 0\<rparr>,
                     pr_curr := 1, pr_receipts := [1]\<rparr>) \<and>
   processTxs testProcessor 0 [failingTx IntraShard, passingTx] testProc = Inl ''out of gas''"
proof -
  let ?x' = "\<lparr>x_statedb = 101, x_privateState = 201, x_gp = (), x_usedGas = 0\<rparr> :: (int, unit) Exec"
  have k: "CrossShardLocal \<noteq> IntraShard" by (simp add: CrossShardLocal_def IntraShard_def)
  have p1: "prepare testProcessor 0 (failingTx CrossShardLocal) testProc
      = (100, 200, None, 1, pr_exec testProc)"
    by (simp add: prepare_def findDc.simps testProcessor_def testProc_def failingTx_def)
  have p2: "prepare testProcessor 0 (failingTx IntraShard) testProc
      = (100, 200, None, 0, pr_exec testProc)"
    using k by (simp add: prepare_def testProcessor_def testProc_def failingTx_def)
  have a: "\<And>kind. p_ApplyTransaction testProcessor None (failingTx kind) (pr_exec testProc)
      = (Inl ''out of gas'', ?x')"
    by (simp add: testProcessor_def testProc_def failingTx_def)
  have t1: "tx_TxType (failingTx CrossShardLocal) = CrossShardLocal"
    and t2: "tx_TxType (failingTx IntraShard) \<noteq> CrossShardLocal"
    using k by (simp_all add: failingTx_def)
  from failed_transaction [OF p1 a, of "[passingTx]"] t1
  have "processTxs testProcessor 0 [failingTx CrossShardLocal, passingTx] testProc
      = processTxs testProcessor 1 [passingTx] (skipped testProcessor 100 200 None 1 ?x' testProc)"
    by simp
  also have "\<dots> = Inr (testProc\<lparr>pr_exec := \<lparr>x_statedb = 110, x_privateState = 200, x_gp = (), x_usedGas = 0\<rparr>,
                     pr_curr := 1, pr_receipts := [1]\<rparr>)"
    using k by (simp add: processTx_def prepare_def skipped_def testProcessor_def testProc_def
        passingTx_def)
  finally have c1: "processTxs testProcessor 0 [failingTx CrossShardLocal, passingTx] testProc
     = Inr (testProc\<lparr>pr_exec := \<lparr>x_statedb = 110, x_privateState = 200, x_gp = (), x_usedGas = 0\<rparr>,
                     pr_curr := 1, pr_receipts := [1]\<rparr>)" .
  from failed_transaction [OF p2 a, of "[passingTx]"] t2
  have c2: "processTxs testProcessor 0 [failingTx IntraShard, passingTx] testProc = Inl ''out of gas''"
    by simp
  from c1 c2 show ?thesis by simp
qed

section \<open>Properties of the handling of a new reference head\<close>

lemma scanCtx_result:
  assumes "newRef \<noteq> - 1"
  shows "scanCtx ex cur newRef = Some (\<exists>n. cur \<le> n \<and> n \<le> newRef \<and> ex n)"
proof (induction "Suc (unat newRef) - unat cur" arbitrary: cur)
  case 0
  then have "\<not> cur \<le> newRef" by (simp add: word_le_nat_alt)
  then show ?case by (subst scanCtx.simps) auto
next
  case (Suc k)
  then have le: "cur \<le> newRef" by (simp add: word_le_nat_alt)
  have nm: "cur \<noteq> - 1"
  proof
    assume "cur = - 1"
    with le have "newRef = - 1" by (simp add: word_order.extremum_unique)
    with assms show False by simp
  qed
  then have "1 + cur \<noteq> 0" using max_word_wrap [of cur] by (auto simp: add.commute)
  then have u: "unat (cur + 1) = Suc (unat cur)" using unatSuc [of cur] by (simp add: add.commute)
  with Suc.hyps(2) have "k = Suc (unat newRef) - unat (cur + 1)" by simp
  from Suc.hyps(1) [OF this]
  have ih: "scanCtx ex (cur + 1) newRef = Some (\<exists>n. cur + 1 \<le> n \<and> n \<le> newRef \<and> ex n)" .
  have split: "\<And>n. cur \<le> n \<longleftrightarrow> n = cur \<or> cur + 1 \<le> n"
    using nm by (auto simp: inc_less_eq_iff)
  show ?case
  proof (cases "ex cur")
    case True
    with le show ?thesis by (subst scanCtx.simps) auto
  next
    case False
    have "(\<exists>n. cur \<le> n \<and> n \<le> newRef \<and> ex n) = (\<exists>n. cur + 1 \<le> n \<and> n \<le> newRef \<and> ex n)"
      using False split by auto
    with le False ih show ?thesis by (subst scanCtx.simps) simp
  qed
qed

lemma range_shift:
  assumes "parentRef \<noteq> (- 1 :: uint64)"
  shows "(parentRef + 1 \<le> n) = (parentRef < n)"
  using assms by (simp add: inc_less_eq_iff)

text \<open>Claim C5. Let the local head be at or above the last committed height (and let
  neither reference number be the largest \<^verbatim>\<open>uint64\<close>, so that the scan does not wrap).
  Then the case ends, and what it does is decided by whether a reference height in
  \<open>(parentRef, newRef]\<close> has a pending cross-shard transaction. If one has, and the local
  head is strictly above the committed height, the worker rewinds (the log line when the
  file opens, the pool and the chain set back to the committed height), then sleeps
  two seconds and submits a work request marked reorg. If none has, it does nothing
  beyond the notification: no rewind, no request.\<close>

theorem reference_head_reorg:
  assumes "rh_parentNum e \<ge> rh_commitNum e"
    and "rh_parentRef e \<noteq> - 1" and "rh_newRefNum e \<noteq> - 1"
  shows "onRefHead e =
           Some ([NotifyUpdate (rh_newRefNum e), SignalCrossWork] @
                 (if ctxInRange e then
                    (if rh_parentNum e > rh_commitNum e then rewind e else [])
                    @ [Sleep 2, Commit False True commitInterruptNewHead (rh_now e)]
                  else [])) \<and>
         (ctxInRange e \<and> rh_parentNum e > rh_commitNum e \<and> rh_fileOpens e \<longrightarrow>
            onRefHead e =
              Some ([NotifyUpdate (rh_newRefNum e), SignalCrossWork,
                     LogReorg (rh_newRefNum e) (rh_parentNum e) (rh_commitNum e) (rh_logNow e),
                     ResetHead (rh_commitNum e), SetHead (rh_commitNum e)] @
                    (if rh_isHandler e then [NewChainHead True] else []) @
                    [Sleep 2, Commit False True commitInterruptNewHead (rh_now e)])) \<and>
         (\<not> ctxInRange e \<longrightarrow> onRefHead e = Some [NotifyUpdate (rh_newRefNum e), SignalCrossWork])"
proof -
  have "scanCtx (CtxExist (rh_pendingCrossTxs e)) (rh_parentRef e + 1) (rh_newRefNum e)
      = Some (ctxInRange e)"
    using assms(2,3) by (simp add: scanCtx_result ctxInRange_def range_shift)
  with assms(1) show ?thesis by (simp add: onRefHead_def rewind_def)
qed

theorem reference_head_reorg_witness:
  "rh_parentNum reorgScenario \<ge> rh_commitNum reorgScenario \<and>
   rh_parentRef reorgScenario \<noteq> - 1 \<and> rh_newRefNum reorgScenario \<noteq> - 1 \<and>
   ctxInRange reorgScenario \<and>
   onRefHead reorgScenario =
     Some [NotifyUpdate 7, SignalCrossWork, LogReorg 7 10 6 1001, ResetHead 6, SetHead 6,
           Sleep 2, Commit False True commitInterruptNewHead 1000]"
proof -
  have a: "rh_parentNum reorgScenario \<ge> rh_commitNum reorgScenario"
    and b: "rh_parentRef reorgScenario \<noteq> - 1" and c: "rh_newRefNum reorgScenario \<noteq> - 1"
    by (simp_all add: reorgScenario_def)
  have "rh_parentRef reorgScenario < 6 \<and> 6 \<le> rh_newRefNum reorgScenario \<and>
      CtxExist (rh_pendingCrossTxs reorgScenario) 6"
    by (simp add: reorgScenario_def CtxExist_def)
  then have d: "ctxInRange reorgScenario" unfolding ctxInRange_def by blast
  have f: "rh_parentNum reorgScenario > rh_commitNum reorgScenario \<and> rh_fileOpens reorgScenario \<and>
      \<not> rh_isHandler reorgScenario \<and> rh_newRefNum reorgScenario = 7 \<and>
      rh_parentNum reorgScenario = 10 \<and> rh_commitNum reorgScenario = 6 \<and>
      rh_logNow reorgScenario = 1001 \<and> rh_now reorgScenario = 1000"
    by (simp add: reorgScenario_def)
  from reference_head_reorg [OF a b c] a b c d f show ?thesis by (simp add: rewind_def)
qed

section \<open>Properties of the recommit interval\<close>








end
